theory Spec2Isabelle
  imports Complex_Main "HOL-Library.AList"
begin

section \<open>Strings and numbers of the runtime\<close>

text \<open>
  A JavaScript string is modelled as a \<^typ>\<open>string\<close> holding its UTF-8 bytes. The
  operations the code applies to strings (equality, emptiness, splitting at the ASCII
  hyphen, searching for ASCII digits or an ASCII substring, concatenation) give the same
  answer on the UTF-8 bytes as on the UTF-16 code units. The Chinese literals of the source
  are written as byte lists, with their code points in a comment.
\<close>

definition is_digit :: "char \<Rightarrow> bool" where
  "is_digit c = (c \<in> set ''0123456789'')"

text \<open>\<open>s.split('-')[0]\<close>: the part of \<open>s\<close> before the first hyphen (all of \<open>s\<close> when
  there is none).\<close>

definition split_first :: "string \<Rightarrow> string" where
  "split_first s = takeWhile (\<lambda>c. c \<noteq> CHR ''-'') s"

text \<open>\<open>s.match(/(\d{4})/)\<close>: the leftmost run of four ASCII digits, or no match.\<close>

fun match_d4 :: "string \<Rightarrow> string option" where
  "match_d4 [] = None"
| "match_d4 (c # cs) =
     (if 4 \<le> length (c # cs) \<and> list_all is_digit (take 4 (c # cs))
      then Some (take 4 (c # cs)) else match_d4 cs)"

text \<open>\<open>s.includes(p)\<close>.\<close>

fun starts_with :: "string \<Rightarrow> string \<Rightarrow> bool" where
  "starts_with s [] = True"
| "starts_with [] (p # ps) = False"
| "starts_with (c # cs) (p # ps) = (c = p \<and> starts_with cs ps)"

fun str_includes :: "string \<Rightarrow> string \<Rightarrow> bool" where
  "str_includes [] p = (p = [])"
| "str_includes (c # cs) p = (starts_with (c # cs) p \<or> str_includes cs p)"

text \<open>Decimal digits of a natural number, as \<open>Number.prototype.toString\<close> and template
  literals print an integer.\<close>

definition digit_char :: "nat \<Rightarrow> char" where
  "digit_char d = ''0123456789'' ! (d mod 10)"

function dec :: "nat \<Rightarrow> string" where
  "dec n = (if n < 10 then [digit_char n] else dec (n div 10) @ [digit_char (n mod 10)])"
  by pat_completeness auto
termination
  by (relation "measure (\<lambda>n. n)") auto

declare dec.simps [simp del]

text \<open>
  \<open>n.toString()\<close> for an integer \<open>n\<close>. The digits are those of the exact integer, which
  is what JavaScript prints for a number that is an integer of magnitude below \<open>2^53\<close>
  (every upstream id is one). Larger numbers are outside the model: JavaScript prints
  the shortest digits that read back as the same double, and exponent notation from
  \<open>10^21\<close> on.
\<close>

definition int_toString :: "int \<Rightarrow> string" where
  "int_toString i = (if i < 0 then ''-'' @ dec (nat (- i)) else dec (nat i))"

text \<open>
  A JavaScript number. A finite double is modelled by its exact value, a rational, and
  the operations below compute exactly: rounding to a double is not modelled. The model
  agrees with JavaScript where every value involved is an integer of magnitude below
  \<open>2^53\<close> (then the quotient of two such integers has the same floor before and after
  rounding); properties that depend on the value of a number are stated within that
  range. Negative zero is identified with zero.
\<close>

datatype jsnum = Num rat | NaN | PosInf | NegInf

fun js_lt :: "jsnum \<Rightarrow> jsnum \<Rightarrow> bool" where
  "js_lt (Num a) (Num b) = (a < b)"
| "js_lt NaN _ = False"
| "js_lt _ NaN = False"
| "js_lt NegInf NegInf = False"
| "js_lt NegInf _ = True"
| "js_lt _ NegInf = False"
| "js_lt PosInf _ = False"
| "js_lt _ PosInf = True"

definition js_gt :: "jsnum \<Rightarrow> jsnum \<Rightarrow> bool" where
  "js_gt a b = js_lt b a"

fun js_div :: "jsnum \<Rightarrow> jsnum \<Rightarrow> jsnum" where
  "js_div (Num a) (Num b) =
     (if b \<noteq> 0 then Num (a / b)
      else if a = 0 then NaN else if 0 < a then PosInf else NegInf)"
| "js_div NaN _ = NaN"
| "js_div _ NaN = NaN"
| "js_div (Num a) _ = Num 0"
| "js_div PosInf (Num b) = (if b < 0 then NegInf else PosInf)"
| "js_div NegInf (Num b) = (if b < 0 then PosInf else NegInf)"
| "js_div _ _ = NaN"

fun js_floor :: "jsnum \<Rightarrow> jsnum" where
  "js_floor (Num a) = Num (of_int \<lfloor>a\<rfloor>)"
| "js_floor x = x"

fun js_add :: "jsnum \<Rightarrow> jsnum \<Rightarrow> jsnum" where
  "js_add (Num a) (Num b) = Num (a + b)"
| "js_add NaN _ = NaN"
| "js_add _ NaN = NaN"
| "js_add PosInf NegInf = NaN"
| "js_add NegInf PosInf = NaN"
| "js_add PosInf _ = PosInf"
| "js_add _ PosInf = PosInf"
| "js_add NegInf _ = NegInf"
| "js_add _ NegInf = NegInf"

text \<open>Truthiness of a number: zero and NaN are falsy.\<close>

fun num_truthy :: "jsnum \<Rightarrow> bool" where
  "num_truthy (Num a) = (a \<noteq> 0)"
| "num_truthy NaN = False"
| "num_truthy _ = True"

text \<open>
  \<open>x.toFixed(1)\<close>: with \<open>n\<close> the integer nearest to \<open>10 * |x|\<close> (the larger one at a
  tie), the digits of \<open>n\<close> with a point before the last one, after the sign. From
  \<open>10^21\<close> on JavaScript prints the number in exponent notation instead; that range
  (ratings lie between 0 and 10) is outside the model.
\<close>

fun toFixed1 :: "jsnum \<Rightarrow> string" where
  "toFixed1 (Num x) =
     (let n = nat \<lfloor>\<bar>x\<bar> * 10 + 1 / 2\<rfloor>
      in (if x < 0 then ''-'' else '''') @ dec (n div 10) @ ''.'' @ dec (n mod 10))"
| "toFixed1 NaN = ''NaN''"
| "toFixed1 PosInf = ''Infinity''"
| "toFixed1 NegInf = ''-Infinity''"

section \<open>Upstream items and their conversion (tmdb.utils and the route-local copies)\<close>

text \<open>
  An entry of the upstream result list is a JSON object; \<open>TMDBMovie\<close> and \<open>TMDBSeries\<close>
  are compile-time views of it, and the handlers cast without a check. The record holds
  the fields the conversions read. A field that the upstream may leave out, or send as
  \<open>null\<close>, is an option (\<open>None\<close> for absent, \<open>undefined\<close> or \<open>null\<close>).
\<close>

record TMDBItem =
  tmdb_id :: int
  title :: string
  original_title :: string
  name :: string
  original_name :: string
  poster_path :: "string option"
  release_date :: "string option"
  first_air_date :: "string option"
  vote_average :: "jsnum option"

record DoubanItem =
  item_id :: string
  item_title :: string
  poster :: string
  rate :: string
  year :: string

text \<open>\<open>a || b\<close> on strings: \<open>a\<close> unless it is empty.\<close>

definition str_or :: "string \<Rightarrow> string \<Rightarrow> string" where
  "str_or a b = (if a \<noteq> [] then a else b)"

text \<open>Truthiness of an optional string and of an optional number.\<close>

fun str_truthy :: "string option \<Rightarrow> bool" where
  "str_truthy None = False"
| "str_truthy (Some s) = (s \<noteq> [])"

fun optnum_truthy :: "jsnum option \<Rightarrow> bool" where
  "optnum_truthy None = False"
| "optnum_truthy (Some x) = num_truthy x"

subsection \<open>tmdb.utils\<close>

definition convertTMDBMovieToDoubanItem :: "TMDBItem \<Rightarrow> DoubanItem" where
  "convertTMDBMovieToDoubanItem movie =
     \<lparr> item_id = int_toString (tmdb_id movie),
       item_title = str_or (title movie) (original_title movie),
       poster = (if str_truthy (poster_path movie)
                 then ''https://image.tmdb.org/t/p/w500'' @ the (poster_path movie) else ''''),
       rate = (if optnum_truthy (vote_average movie)
               then toFixed1 (the (vote_average movie)) else ''''),
       year = (if str_truthy (release_date movie)
               then split_first (the (release_date movie)) else '''') \<rparr>"

definition convertTMDBSeriesToDoubanItem :: "TMDBItem \<Rightarrow> DoubanItem" where
  "convertTMDBSeriesToDoubanItem series =
     \<lparr> item_id = int_toString (tmdb_id series),
       item_title = str_or (name series) (original_name series),
       poster = (if str_truthy (poster_path series)
                 then ''https://image.tmdb.org/t/p/w500'' @ the (poster_path series) else ''''),
       rate = (if optnum_truthy (vote_average series)
               then toFixed1 (the (vote_average series)) else ''''),
       year = (if str_truthy (first_air_date series)
               then split_first (the (first_air_date series)) else '''') \<rparr>"

subsection \<open>The copies local to the self-contained route files\<close>

definition getTMDBImageUrl :: "string option \<Rightarrow> string \<Rightarrow> string" where
  "getTMDBImageUrl posterPath sz =
     (if \<not> str_truthy posterPath then ''''
      else ''https://image.tmdb.org/t/p/'' @ sz @ the posterPath)"

definition extractYear :: "string option \<Rightarrow> string" where
  "extractYear dateString =
     (if \<not> str_truthy dateString then ''''
      else (case match_d4 (the dateString) of Some m \<Rightarrow> m | None \<Rightarrow> ''''))"

definition convertTMDBMovieToDoubanItem_local :: "TMDBItem \<Rightarrow> DoubanItem" where
  "convertTMDBMovieToDoubanItem_local movie =
     \<lparr> item_id = int_toString (tmdb_id movie),
       item_title = title movie,
       poster = getTMDBImageUrl (poster_path movie) ''w500'',
       rate = (if optnum_truthy (vote_average movie)
               then toFixed1 (the (vote_average movie)) else ''''),
       year = extractYear (release_date movie) \<rparr>"

definition convertTMDBSeriesToDoubanItem_local :: "TMDBItem \<Rightarrow> DoubanItem" where
  "convertTMDBSeriesToDoubanItem_local series =
     \<lparr> item_id = int_toString (tmdb_id series),
       item_title = name series,
       poster = getTMDBImageUrl (poster_path series) ''w500'',
       rate = (if optnum_truthy (vote_average series)
               then toFixed1 (the (vote_average series)) else ''''),
       year = extractYear (first_air_date series) \<rparr>"

section \<open>Parsing of the page parameters\<close>

text \<open>
  The white space that \<open>parseInt\<close> skips: TAB, LF, VT, FF, CR, SP, U+00A0, U+1680,
  U+2000 to U+200A, U+2028, U+2029, U+202F, U+205F, U+3000 and U+FEFF, in UTF-8.
\<close>

definition ws_seqs :: "string list" where
  "ws_seqs =
    [[CHR 0x09],
     [CHR 0x0A],
     [CHR 0x0B],
     [CHR 0x0C],
     [CHR 0x0D],
     [CHR 0x20],
     [CHR 0xC2, CHR 0xA0],
     [CHR 0xE1, CHR 0x9A, CHR 0x80],
     [CHR 0xE2, CHR 0x80, CHR 0x80],
     [CHR 0xE2, CHR 0x80, CHR 0x81],
     [CHR 0xE2, CHR 0x80, CHR 0x82],
     [CHR 0xE2, CHR 0x80, CHR 0x83],
     [CHR 0xE2, CHR 0x80, CHR 0x84],
     [CHR 0xE2, CHR 0x80, CHR 0x85],
     [CHR 0xE2, CHR 0x80, CHR 0x86],
     [CHR 0xE2, CHR 0x80, CHR 0x87],
     [CHR 0xE2, CHR 0x80, CHR 0x88],
     [CHR 0xE2, CHR 0x80, CHR 0x89],
     [CHR 0xE2, CHR 0x80, CHR 0x8A],
     [CHR 0xE2, CHR 0x80, CHR 0xA8],
     [CHR 0xE2, CHR 0x80, CHR 0xA9],
     [CHR 0xE2, CHR 0x80, CHR 0xAF],
     [CHR 0xE2, CHR 0x81, CHR 0x9F],
     [CHR 0xE3, CHR 0x80, CHR 0x80],
     [CHR 0xEF, CHR 0xBB, CHR 0xBF]]"

definition ws_len :: "string \<Rightarrow> nat" where
  "ws_len s = (case find (starts_with s) ws_seqs of Some w \<Rightarrow> length w | None \<Rightarrow> 0)"

lemma starts_with_length: "starts_with s p \<Longrightarrow> length p \<le> length s"
  by (induction s p rule: starts_with.induct) auto

lemma ws_len_le: "ws_len s \<le> length s"
proof (cases "find (starts_with s) ws_seqs")
  case None
  then show ?thesis by (simp add: ws_len_def)
next
  case (Some w)
  then have "starts_with s w" by (auto simp: find_Some_iff)
  then show ?thesis using Some by (simp add: ws_len_def starts_with_length)
qed

function trim_start :: "string \<Rightarrow> string" where
  "trim_start s = (if ws_len s = 0 then s else trim_start (drop (ws_len s) s))"
  by pat_completeness auto
termination
proof (relation "measure length")
  show "wf (measure length)" by simp
next
  fix s :: string
  assume "ws_len s \<noteq> 0"
  moreover have "ws_len s \<le> length s" by (rule ws_len_le)
  ultimately show "(drop (ws_len s) s, s) \<in> measure length" by simp
qed

declare trim_start.simps [simp del]

definition is_radix_digit :: "nat \<Rightarrow> char \<Rightarrow> bool" where
  "is_radix_digit radix c =
     (is_digit c \<or> (radix = 16 \<and> c \<in> set ''abcdefABCDEF''))"

definition digit_val :: "char \<Rightarrow> nat" where
  "digit_val c =
     (if is_digit c then of_char c - 48
      else if c \<in> set ''abcdef'' then of_char c - 87
      else of_char c - 55)"

definition digits_value :: "nat \<Rightarrow> string \<Rightarrow> nat" where
  "digits_value radix ds = foldl (\<lambda>acc c. acc * radix + digit_val c) 0 ds"

text \<open>
  \<open>parseInt(s)\<close> with no radix: white space is skipped, then an optional sign, then a
  \<open>0x\<close> prefix selects radix 16; the longest run of digits is read and whatever follows
  is ignored; with no digit the result is NaN. The result is the exact value of the
  digits. It is the JavaScript result when its magnitude is below \<open>2^53\<close>; from there
  on JavaScript rounds to a double, and to an infinity for very long digit strings, which
  the model does not do. Both give a number below 0 for the same strings, and likewise
  below 1 and above 100.
\<close>

definition parseInt :: "string \<Rightarrow> jsnum" where
  "parseInt s =
     (let s1 = trim_start s;
          neg = starts_with s1 ''-'';
          s2 = (if starts_with s1 ''-'' \<or> starts_with s1 ''+'' then tl s1 else s1);
          hex = (starts_with s2 ''0x'' \<or> starts_with s2 ''0X'');
          radix = (if hex then 16 else 10);
          s3 = (if hex then drop 2 s2 else s2);
          ds = takeWhile (is_radix_digit radix) s3
      in if ds = [] then NaN
         else Num (of_int ((if neg then - 1 else 1) * int (digits_value radix ds))))"

text \<open>\<open>searchParams.get(k) || d\<close>: the default replaces an absent and an empty value.\<close>

fun or_default :: "string option \<Rightarrow> string \<Rightarrow> string" where
  "or_default None d = d"
| "or_default (Some s) d = (if s \<noteq> [] then s else d)"

section \<open>Category labels and messages of the source\<close>

definition tag_popular :: string where
  \<comment> \<open>code points: U+70ED U+95E8\<close>
  "tag_popular = [CHR 0xE7, CHR 0x83, CHR 0xAD, CHR 0xE9, CHR 0x97, CHR 0xA8]"

definition tag_latest :: string where
  \<comment> \<open>code points: U+6700 U+65B0\<close>
  "tag_latest = [CHR 0xE6, CHR 0x9C, CHR 0x80, CHR 0xE6, CHR 0x96, CHR 0xB0]"

definition tag_upcoming :: string where
  \<comment> \<open>code points: U+5373 U+5C06 U+4E0A U+6620\<close>
  "tag_upcoming = [CHR 0xE5, CHR 0x8D, CHR 0xB3, CHR 0xE5, CHR 0xB0, CHR 0x86, CHR 0xE4, CHR 0xB8, CHR 0x8A, CHR 0xE6, CHR 0x98, CHR 0xA0]"

definition tag_top_rated :: string where
  \<comment> \<open>code points: U+9AD8 U+5206\<close>
  "tag_top_rated = [CHR 0xE9, CHR 0xAB, CHR 0x98, CHR 0xE5, CHR 0x88, CHR 0x86]"

definition tag_douban_top :: string where
  \<comment> \<open>code points: U+8C46 U+74E3 U+9AD8 U+5206\<close>
  "tag_douban_top = [CHR 0xE8, CHR 0xB1, CHR 0x86, CHR 0xE7, CHR 0x93, CHR 0xA3, CHR 0xE9, CHR 0xAB, CHR 0x98, CHR 0xE5, CHR 0x88, CHR 0x86]"

definition tag_chinese :: string where
  \<comment> \<open>code points: U+534E U+8BED\<close>
  "tag_chinese = [CHR 0xE5, CHR 0x8D, CHR 0x8E, CHR 0xE8, CHR 0xAF, CHR 0xAD]"

definition tag_western :: string where
  \<comment> \<open>code points: U+6B27 U+7F8E\<close>
  "tag_western = [CHR 0xE6, CHR 0xAC, CHR 0xA7, CHR 0xE7, CHR 0xBE, CHR 0x8E]"

definition tag_korean :: string where
  \<comment> \<open>code points: U+97E9 U+56FD\<close>
  "tag_korean = [CHR 0xE9, CHR 0x9F, CHR 0xA9, CHR 0xE5, CHR 0x9B, CHR 0xBD]"

definition tag_japanese :: string where
  \<comment> \<open>code points: U+65E5 U+672C\<close>
  "tag_japanese = [CHR 0xE6, CHR 0x97, CHR 0xA5, CHR 0xE6, CHR 0x9C, CHR 0xAC]"

definition tag_anime :: string where
  \<comment> \<open>code points: U+52A8 U+6F2B\<close>
  "tag_anime = [CHR 0xE5, CHR 0x8A, CHR 0xA8, CHR 0xE6, CHR 0xBC, CHR 0xAB]"

definition tag_documentary :: string where
  \<comment> \<open>code points: U+7EAA U+5F55 U+7247\<close>
  "tag_documentary = [CHR 0xE7, CHR 0xBA, CHR 0xAA, CHR 0xE5, CHR 0xBD, CHR 0x95, CHR 0xE7, CHR 0x89, CHR 0x87]"

definition tag_hidden_gems :: string where
  \<comment> \<open>code points: U+51B7 U+95E8 U+4F73 U+7247\<close>
  "tag_hidden_gems = [CHR 0xE5, CHR 0x86, CHR 0xB7, CHR 0xE9, CHR 0x97, CHR 0xA8, CHR 0xE4, CHR 0xBD, CHR 0xB3, CHR 0xE7, CHR 0x89, CHR 0x87]"

definition tag_variety :: string where
  \<comment> \<open>code points: U+7EFC U+827A\<close>
  "tag_variety = [CHR 0xE7, CHR 0xBB, CHR 0xBC, CHR 0xE8, CHR 0x89, CHR 0xBA]"

definition msg_success :: string where
  \<comment> \<open>code points: U+83B7 U+53D6 U+6210 U+529F\<close>
  "msg_success = [CHR 0xE8, CHR 0x8E, CHR 0xB7, CHR 0xE5, CHR 0x8F, CHR 0x96, CHR 0xE6, CHR 0x88, CHR 0x90, CHR 0xE5, CHR 0x8A, CHR 0x9F]"

definition msg_missing_tag_type :: string where
  \<comment> \<open>code points: U+7F3A U+5C11 U+5FC5 U+8981 U+53C2 U+6570 U+FF1A U+6216\<close>
  "msg_missing_tag_type = [CHR 0xE7, CHR 0xBC, CHR 0xBA, CHR 0xE5, CHR 0xB0, CHR 0x91, CHR 0xE5, CHR 0xBF, CHR 0x85, CHR 0xE8, CHR 0xA6, CHR 0x81, CHR 0xE5, CHR 0x8F, CHR 0x82, CHR 0xE6, CHR 0x95, CHR 0xB0, CHR 0xEF, CHR 0xBC, CHR 0x9A] @ ''tag '' @ [CHR 0xE6, CHR 0x88, CHR 0x96] @ '' type''"

definition msg_type_invalid :: string where
  \<comment> \<open>code points: U+53C2 U+6570 U+5FC5 U+987B U+662F U+6216\<close>
  "msg_type_invalid = ''type '' @ [CHR 0xE5, CHR 0x8F, CHR 0x82, CHR 0xE6, CHR 0x95, CHR 0xB0, CHR 0xE5, CHR 0xBF, CHR 0x85, CHR 0xE9, CHR 0xA1, CHR 0xBB, CHR 0xE6, CHR 0x98, CHR 0xAF] @ '' tv '' @ [CHR 0xE6, CHR 0x88, CHR 0x96] @ '' movie''"

definition msg_pageSize_range :: string where
  \<comment> \<open>code points: U+5FC5 U+987B U+5728 U+4E4B U+95F4\<close>
  "msg_pageSize_range = ''pageSize '' @ [CHR 0xE5, CHR 0xBF, CHR 0x85, CHR 0xE9, CHR 0xA1, CHR 0xBB, CHR 0xE5, CHR 0x9C, CHR 0xA8] @ '' 1-100 '' @ [CHR 0xE4, CHR 0xB9, CHR 0x8B, CHR 0xE9, CHR 0x97, CHR 0xB4]"

definition msg_pageLimit_range :: string where
  \<comment> \<open>code points: U+5FC5 U+987B U+5728 U+4E4B U+95F4\<close>
  "msg_pageLimit_range = ''pageLimit '' @ [CHR 0xE5, CHR 0xBF, CHR 0x85, CHR 0xE9, CHR 0xA1, CHR 0xBB, CHR 0xE5, CHR 0x9C, CHR 0xA8] @ '' 1-100 '' @ [CHR 0xE4, CHR 0xB9, CHR 0x8B, CHR 0xE9, CHR 0x97, CHR 0xB4]"

definition msg_pageStart_negative :: string where
  \<comment> \<open>code points: U+4E0D U+80FD U+5C0F U+4E8E\<close>
  "msg_pageStart_negative = ''pageStart '' @ [CHR 0xE4, CHR 0xB8, CHR 0x8D, CHR 0xE8, CHR 0x83, CHR 0xBD, CHR 0xE5, CHR 0xB0, CHR 0x8F, CHR 0xE4, CHR 0xBA, CHR 0x8E] @ '' 0''"

definition msg_key_missing :: string where
  \<comment> \<open>code points: U+672A U+914D U+7F6E\<close>
  "msg_key_missing = ''TMDB API Key '' @ [CHR 0xE6, CHR 0x9C, CHR 0xAA, CHR 0xE9, CHR 0x85, CHR 0x8D, CHR 0xE7, CHR 0xBD, CHR 0xAE]"

definition msg_search_failed :: string where
  \<comment> \<open>code points: U+83B7 U+53D6 U+641C U+7D22 U+6570 U+636E U+5931 U+8D25\<close>
  "msg_search_failed = [CHR 0xE8, CHR 0x8E, CHR 0xB7, CHR 0xE5, CHR 0x8F, CHR 0x96] @ '' TMDB '' @ [CHR 0xE6, CHR 0x90, CHR 0x9C, CHR 0xE7, CHR 0xB4, CHR 0xA2, CHR 0xE6, CHR 0x95, CHR 0xB0, CHR 0xE6, CHR 0x8D, CHR 0xAE, CHR 0xE5, CHR 0xA4, CHR 0xB1, CHR 0xE8, CHR 0xB4, CHR 0xA5]"

definition msg_category_failed :: string where
  \<comment> \<open>code points: U+83B7 U+53D6 U+5206 U+7C7B U+6570 U+636E U+5931 U+8D25\<close>
  "msg_category_failed = [CHR 0xE8, CHR 0x8E, CHR 0xB7, CHR 0xE5, CHR 0x8F, CHR 0x96] @ '' TMDB '' @ [CHR 0xE5, CHR 0x88, CHR 0x86, CHR 0xE7, CHR 0xB1, CHR 0xBB, CHR 0xE6, CHR 0x95, CHR 0xB0, CHR 0xE6, CHR 0x8D, CHR 0xAE, CHR 0xE5, CHR 0xA4, CHR 0xB1, CHR 0xE8, CHR 0xB4, CHR 0xA5]"

definition msg_timeout :: string where
  \<comment> \<open>code points: U+8BF7 U+6C42 U+8D85 U+65F6 U+FF0C U+8BF7 U+7A0D U+540E U+91CD U+8BD5\<close>
  "msg_timeout = [CHR 0xE8, CHR 0xAF, CHR 0xB7, CHR 0xE6, CHR 0xB1, CHR 0x82, CHR 0xE8, CHR 0xB6, CHR 0x85, CHR 0xE6, CHR 0x97, CHR 0xB6, CHR 0xEF, CHR 0xBC, CHR 0x8C, CHR 0xE8, CHR 0xAF, CHR 0xB7, CHR 0xE7, CHR 0xA8, CHR 0x8D, CHR 0xE5, CHR 0x90, CHR 0x8E, CHR 0xE9, CHR 0x87, CHR 0x8D, CHR 0xE8, CHR 0xAF, CHR 0x95]"

definition msg_key_invalid :: string where
  \<comment> \<open>code points: U+65E0 U+6548\<close>
  "msg_key_invalid = ''TMDB API Key '' @ [CHR 0xE6, CHR 0x97, CHR 0xA0, CHR 0xE6, CHR 0x95, CHR 0x88]"

definition msg_rate_limited :: string where
  \<comment> \<open>code points: U+8BF7 U+6C42 U+8FC7 U+4E8E U+9891 U+7E41 U+FF0C U+8BF7 U+7A0D U+540E U+518D U+8BD5\<close>
  "msg_rate_limited = ''TMDB API '' @ [CHR 0xE8, CHR 0xAF, CHR 0xB7, CHR 0xE6, CHR 0xB1, CHR 0x82, CHR 0xE8, CHR 0xBF, CHR 0x87, CHR 0xE4, CHR 0xBA, CHR 0x8E, CHR 0xE9, CHR 0xA2, CHR 0x91, CHR 0xE7, CHR 0xB9, CHR 0x81, CHR 0xEF, CHR 0xBC, CHR 0x8C, CHR 0xE8, CHR 0xAF, CHR 0xB7, CHR 0xE7, CHR 0xA8, CHR 0x8D, CHR 0xE5, CHR 0x90, CHR 0x8E, CHR 0xE5, CHR 0x86, CHR 0x8D, CHR 0xE8, CHR 0xAF, CHR 0x95]"

definition msg_server_error :: string where
  \<comment> \<open>code points: U+670D U+52A1 U+5668 U+9519 U+8BEF\<close>
  "msg_server_error = ''TMDB '' @ [CHR 0xE6, CHR 0x9C, CHR 0x8D, CHR 0xE5, CHR 0x8A, CHR 0xA1, CHR 0xE5, CHR 0x99, CHR 0xA8, CHR 0xE9, CHR 0x94, CHR 0x99, CHR 0xE8, CHR 0xAF, CHR 0xAF]"

definition msg_missing_kind_category_type :: string where
  \<comment> \<open>code points: U+7F3A U+5C11 U+5FC5 U+8981 U+53C2 U+6570 U+FF1A U+6216 U+6216\<close>
  "msg_missing_kind_category_type = [CHR 0xE7, CHR 0xBC, CHR 0xBA, CHR 0xE5, CHR 0xB0, CHR 0x91, CHR 0xE5, CHR 0xBF, CHR 0x85, CHR 0xE8, CHR 0xA6, CHR 0x81, CHR 0xE5, CHR 0x8F, CHR 0x82, CHR 0xE6, CHR 0x95, CHR 0xB0, CHR 0xEF, CHR 0xBC, CHR 0x9A] @ ''kind '' @ [CHR 0xE6, CHR 0x88, CHR 0x96] @ '' category '' @ [CHR 0xE6, CHR 0x88, CHR 0x96] @ '' type''"

definition msg_kind_invalid :: string where
  \<comment> \<open>code points: U+53C2 U+6570 U+5FC5 U+987B U+662F U+6216\<close>
  "msg_kind_invalid = ''kind '' @ [CHR 0xE5, CHR 0x8F, CHR 0x82, CHR 0xE6, CHR 0x95, CHR 0xB0, CHR 0xE5, CHR 0xBF, CHR 0x85, CHR 0xE9, CHR 0xA1, CHR 0xBB, CHR 0xE6, CHR 0x98, CHR 0xAF] @ '' tv '' @ [CHR 0xE6, CHR 0x88, CHR 0x96] @ '' movie''"

section \<open>Search strategies (tmdb.utils)\<close>

text \<open>
  A parameter object is an association list in insertion order, as a JavaScript object
  with string keys is. \<open>obj_set\<close> is the assignment \<open>o[k] = v\<close>, \<open>spread a b\<close> is the
  object literal \<open>{...a, ...b}\<close>; \<open>{...a, k: v}\<close> is \<open>spread a [(k, v)]\<close>.
\<close>

datatype jsval = JStr string | JNum jsnum | JBool bool | JNull | JUndefined

type_synonym params = "(string \<times> jsval) list"

definition obj_set :: "params \<Rightarrow> string \<Rightarrow> jsval \<Rightarrow> params" where
  "obj_set obj k v = AList.update k v obj"

definition spread :: "params \<Rightarrow> params \<Rightarrow> params" where
  "spread a b = foldl (\<lambda>acc kv. obj_set acc (fst kv) (snd kv)) a b"

text \<open>The body of the two \<open>forEach\<close> loops over \<open>Object.entries\<close>: an entry is assigned
  unless its value is \<open>undefined\<close> or \<open>null\<close>.\<close>

definition set_present :: "params \<Rightarrow> string \<times> jsval \<Rightarrow> params" where
  "set_present q kv =
     (if snd kv \<noteq> JUndefined \<and> snd kv \<noteq> JNull then obj_set q (fst kv) (snd kv) else q)"

record SearchStrategy =
  endpoint :: string
  params :: params

definition baseParams :: params where
  "baseParams = [(''include_adult'', JBool False), (''include_video'', JBool False)]"

definition discover_by :: "string \<Rightarrow> string \<Rightarrow> string \<Rightarrow> SearchStrategy" where
  \<comment> \<open>the shape shared by the region and genre cases:
      \<open>{endpoint, params: {...baseParams, k: v, sort_by: 'popularity.desc'}}\<close>\<close>
  "discover_by ep k v =
     \<lparr> endpoint = ep,
       params = spread baseParams [(k, JStr v), (''sort_by'', JStr ''popularity.desc'')] \<rparr>"

definition getSearchStrategy :: "string \<Rightarrow> string \<Rightarrow> SearchStrategy" where
  "getSearchStrategy tag type =
     (if type = ''movie'' then
        (if tag = tag_popular then \<lparr> endpoint = ''/movie/popular'', params = baseParams \<rparr>
         else if tag = tag_latest then \<lparr> endpoint = ''/movie/now_playing'', params = baseParams \<rparr>
         else if tag = tag_upcoming then \<lparr> endpoint = ''/movie/upcoming'', params = baseParams \<rparr>
         else if tag = tag_top_rated \<or> tag = tag_douban_top
           then \<lparr> endpoint = ''/movie/top_rated'', params = baseParams \<rparr>
         else if tag = tag_chinese then discover_by ''/discover/movie'' ''with_origin_country'' ''CN''
         else if tag = tag_western then discover_by ''/discover/movie'' ''with_origin_country'' ''US''
         else if tag = tag_korean then discover_by ''/discover/movie'' ''with_origin_country'' ''KR''
         else if tag = tag_japanese then discover_by ''/discover/movie'' ''with_origin_country'' ''JP''
         else if tag = tag_anime then discover_by ''/discover/movie'' ''with_genres'' ''16''
         else if tag = tag_documentary then discover_by ''/discover/movie'' ''with_genres'' ''99''
         else if tag = tag_hidden_gems then
           \<lparr> endpoint = ''/discover/movie'',
             params = spread baseParams
               [(''sort_by'', JStr ''vote_average.desc''), (''vote_count.gte'', JNum (Num 100))] \<rparr>
         else \<lparr> endpoint = ''/search/movie'', params = spread baseParams [(''query'', JStr tag)] \<rparr>)
      else if type = ''tv'' then
        (if tag = tag_popular then \<lparr> endpoint = ''/tv/popular'', params = baseParams \<rparr>
         else if tag = tag_chinese then discover_by ''/discover/tv'' ''with_origin_country'' ''CN''
         else if tag = tag_western then discover_by ''/discover/tv'' ''with_origin_country'' ''US''
         else if tag = tag_korean then discover_by ''/discover/tv'' ''with_origin_country'' ''KR''
         else if tag = tag_japanese then discover_by ''/discover/tv'' ''with_origin_country'' ''JP''
         else if tag = tag_anime then discover_by ''/discover/tv'' ''with_genres'' ''16''
         else if tag = tag_documentary then discover_by ''/discover/tv'' ''with_genres'' ''99''
         else if tag = tag_variety then discover_by ''/discover/tv'' ''with_genres'' ''10764''
         else \<lparr> endpoint = ''/search/tv'', params = spread baseParams [(''query'', JStr tag)] \<rparr>)
      else \<lparr> endpoint = ''/movie/popular'', params = baseParams \<rparr>)"

text \<open>The labels with a case of their own in \<open>getSearchStrategy\<close>, for each kind.\<close>

definition known_movie_tags :: "string list" where
  "known_movie_tags =
     [tag_popular, tag_latest, tag_upcoming, tag_top_rated, tag_douban_top, tag_chinese,
      tag_western, tag_korean, tag_japanese, tag_anime, tag_documentary, tag_hidden_gems]"

definition known_tv_tags :: "string list" where
  "known_tv_tags =
     [tag_popular, tag_chinese, tag_western, tag_korean, tag_japanese, tag_anime,
      tag_documentary, tag_variety]"

section \<open>Requests, responses and the upstream\<close>

text \<open>
  The inbound request is its \<open>searchParams\<close>, a map from parameter names to values
  (\<open>get\<close> returns \<open>null\<close> for an absent name). An outbound call is the endpoint after
  the base URL \<open>https://api.themoviedb.org/3\<close> with the query parameters in order; their
  values are kept as they are before \<open>String(...)\<close> and URL encoding. Request and
  response headers are left out: no property below speaks of them.
\<close>

type_synonym searchParams = "string \<rightharpoonup> string"

record call =
  call_endpoint :: string
  call_query :: params

record js_error =
  err_name :: string
  err_message :: string

text \<open>
  What the upstream does with a call: \<open>fetch\<close> rejects with an error (a network failure,
  or the abort of the timeout, whose error is named \<open>AbortError\<close>), or it answers with a
  status; reading the answer (\<open>response.json()\<close> and its \<open>results\<close>) then throws an
  error or gives the result list.
\<close>

datatype fetch_outcome =
  Rejects js_error
| Responds nat "js_error + TMDBItem list"

record env =
  apiKey :: "string option"
  upstream :: "call \<Rightarrow> fetch_outcome"

record DoubanResult =
  code :: nat
  message :: string
  list :: "DoubanItem list"

datatype body = Result DoubanResult | ErrorBody string

record response =
  status :: nat
  body :: body

definition json_error :: "string \<Rightarrow> nat \<Rightarrow> response" where
  \<comment> \<open>\<open>NextResponse.json({ error: msg }, { status })\<close>\<close>
  "json_error msg st = \<lparr> status = st, body = ErrorBody msg \<rparr>"

definition json_result :: "DoubanResult \<Rightarrow> response" where
  \<comment> \<open>\<open>NextResponse.json(result)\<close>, status 200\<close>
  "json_result r = \<lparr> status = 200, body = Result r \<rparr>"

definition response_ok :: "nat \<Rightarrow> bool" where
  \<comment> \<open>\<open>response.ok\<close>\<close>
  "response_ok st = (200 \<le> st \<and> st \<le> 299)"

definition api_error :: "nat \<Rightarrow> js_error" where
  \<comment> \<open>\<open>new Error(`TMDB API error: ${response.status}`)\<close>\<close>
  "api_error st = \<lparr> err_name = ''Error'', err_message = ''TMDB API error: '' @ dec st \<rparr>"

definition buildTMDBUrl :: "string \<Rightarrow> string \<Rightarrow> params \<Rightarrow> call" where
  "buildTMDBUrl ep key ps =
     \<lparr> call_endpoint = ep,
       call_query =
         foldl set_present
           [(''api_key'', JStr key), (''language'', JStr ''zh-CN''), (''region'', JStr ''CN'')]
           ps \<rparr>"

definition cleanParams :: "params \<Rightarrow> params" where
  "cleanParams ps = foldl set_present [] ps"

definition page_of :: "jsnum \<Rightarrow> jsnum \<Rightarrow> jsnum" where
  \<comment> \<open>\<open>Math.floor(pageStart / pageSize) + 1\<close>, computed exactly: the JavaScript result
      for an integer offset below \<open>2^53\<close> and an integer size from 1 to 100\<close>
  "page_of pageStart pageSize = js_add (js_floor (js_div pageStart pageSize)) (Num 1)"

section \<open>The handlers of route.ts\<close>

text \<open>
  The \<open>catch\<close> block of both handlers of route.ts; \<open>fallback\<close> is the message it starts
  from. Every value thrown in the \<open>try\<close> block is an \<open>Error\<close>.
\<close>

definition error_response :: "string \<Rightarrow> js_error \<Rightarrow> response" where
  "error_response fallback e =
     (if err_name e = ''AbortError'' then json_error msg_timeout 408
      else if str_includes (err_message e) ''401'' then json_error msg_key_invalid 500
      else if str_includes (err_message e) ''429'' then json_error msg_rate_limited 429
      else if str_includes (err_message e) ''500'' then json_error msg_server_error 502
      else json_error fallback 500)"

text \<open>
  The part after the target has been built, shared by the handlers: one call, then the
  answer is converted, with \<open>recover\<close> standing for the \<open>catch\<close> block.
\<close>

definition fetch_and_convert ::
  "env \<Rightarrow> call \<Rightarrow> (js_error \<Rightarrow> response) \<Rightarrow> (TMDBItem \<Rightarrow> DoubanItem) \<Rightarrow> response \<times> call list"
where
  "fetch_and_convert e target recover conv =
     (case upstream e target of
        Rejects err \<Rightarrow> (recover err, [target])
      | Responds st b \<Rightarrow>
          if \<not> response_ok st then (recover (api_error st), [target])
          else (case b of
                  Inl err \<Rightarrow> (recover err, [target])
                | Inr results \<Rightarrow>
                    (json_result \<lparr> code = 200, message = msg_success, list = map conv results \<rparr>,
                     [target])))"

definition GET_search :: "env \<Rightarrow> searchParams \<Rightarrow> response \<times> call list" where
  "GET_search e sp =
     (let tag = sp ''tag'';
          type = sp ''type'';
          pageSize = parseInt (or_default (sp ''pageSize'') ''20'');
          pageStart = parseInt (or_default (sp ''pageStart'') ''0'')
      in if \<not> str_truthy tag \<or> \<not> str_truthy type
           then (json_error msg_missing_tag_type 400, [])
         else if the type \<notin> set [''tv'', ''movie'']
           then (json_error msg_type_invalid 400, [])
         else if js_lt pageSize (Num 1) \<or> js_gt pageSize (Num 100)
           then (json_error msg_pageSize_range 400, [])
         else if js_lt pageStart (Num 0)
           then (json_error msg_pageStart_negative 400, [])
         else if \<not> str_truthy (apiKey e)
           then (json_error msg_key_missing 500, [])
         else if the tag = tag_variety \<and> the type = ''movie''
           then (json_result \<lparr> code = 200, message = msg_success, list = [] \<rparr>, [])
         else
           (let strategy = getSearchStrategy (the tag) (the type);
                page = page_of pageStart pageSize;
                ps = spread (params strategy) [(''page'', JNum page)];
                target = buildTMDBUrl (endpoint strategy) (the (apiKey e)) (cleanParams ps)
            in fetch_and_convert e target (error_response msg_search_failed)
                 (if the type = ''movie'' then convertTMDBMovieToDoubanItem
                  else convertTMDBSeriesToDoubanItem)))"

text \<open>
  The category handler builds endpoint and parameters itself. Each \<open>switch\<close> is a function
  on the pair \<open>(baseEndpoint, baseParams)\<close> that the code assigns to.
\<close>

definition movie_category :: "string \<Rightarrow> string \<times> params" where
  "movie_category category =
     (if category = tag_popular then (''/movie/popular'', [])
      else if category = tag_latest then (''/movie/now_playing'', [])
      else if category = tag_upcoming then (''/movie/upcoming'', [])
      else if category = tag_top_rated \<or> category = tag_douban_top then (''/movie/top_rated'', [])
      else if category = tag_hidden_gems then
        (''/discover/movie'',
         obj_set (obj_set [] ''sort_by'' (JStr ''vote_average.desc'')) ''vote_count.gte'' (JStr ''100''))
      else (''/movie/popular'', []))"

definition movie_region :: "string \<Rightarrow> string \<times> params \<Rightarrow> string \<times> params" where
  \<comment> \<open>the four region cases, with the country code \<open>cc\<close>\<close>
  "movie_region cc st =
     (if fst st = ''/discover/movie''
      then (fst st, obj_set (snd st) ''with_origin_country'' (JStr cc))
      else (''/discover/movie'',
            obj_set (obj_set (snd st) ''with_origin_country'' (JStr cc))
              ''sort_by'' (JStr ''popularity.desc'')))"

definition movie_genre :: "string \<Rightarrow> string \<times> params \<Rightarrow> string \<times> params" where
  "movie_genre g st =
     (''/discover/movie'',
      obj_set (obj_set (snd st) ''with_genres'' (JStr g)) ''sort_by'' (JStr ''popularity.desc''))"

definition movie_type :: "string \<Rightarrow> string \<times> params \<Rightarrow> string \<times> params" where
  "movie_type type st =
     (if type = tag_chinese then movie_region ''CN'' st
      else if type = tag_western then movie_region ''US'' st
      else if type = tag_korean then movie_region ''KR'' st
      else if type = tag_japanese then movie_region ''JP'' st
      else if type = tag_anime then movie_genre ''16'' st
      else if type = tag_documentary then movie_genre ''99'' st
      else st)"

definition tv_discover :: "(string \<times> string) list \<Rightarrow> string \<times> params" where
  \<comment> \<open>\<open>/discover/tv\<close> with the given assignments, then \<open>sort_by\<close>\<close>
  "tv_discover kvs =
     (''/discover/tv'',
      obj_set (foldl (\<lambda>acc kv. obj_set acc (fst kv) (JStr (snd kv))) [] kvs)
        ''sort_by'' (JStr ''popularity.desc''))"

definition tv_category :: "string \<Rightarrow> string \<Rightarrow> string \<times> params" where
  "tv_category category type =
     (if category = ''tv'' then
        (if type = ''tv'' then (''/tv/popular'', [])
         else if type = ''tv_domestic'' then tv_discover [(''with_origin_country'', ''CN'')]
         else if type = ''tv_american'' then tv_discover [(''with_origin_country'', ''US'')]
         else if type = ''tv_japanese'' then tv_discover [(''with_origin_country'', ''JP'')]
         else if type = ''tv_korean'' then tv_discover [(''with_origin_country'', ''KR'')]
         else if type = ''tv_animation'' then tv_discover [(''with_genres'', ''16'')]
         else if type = ''tv_documentary'' then tv_discover [(''with_genres'', ''99'')]
         else (''/tv/popular'', []))
      else if category = ''show'' then
        (if type = ''show'' then tv_discover [(''with_genres'', ''10764'')]
         else if type = ''show_domestic''
           then tv_discover [(''with_genres'', ''10764''), (''with_origin_country'', ''CN'')]
         else if type = ''show_foreign''
           then tv_discover [(''with_genres'', ''10764''), (''with_origin_country'', ''US'')]
         else tv_discover [(''with_genres'', ''10764'')])
      else (''/tv/popular'', []))"

definition category_base :: "string \<Rightarrow> string \<Rightarrow> string \<Rightarrow> string \<times> params" where
  \<comment> \<open>the \<open>if (kind === 'movie') ... else ...\<close> block: \<open>(endpoint, baseParams)\<close>\<close>
  "category_base kind category type =
     (if kind = ''movie'' then movie_type type (movie_category category)
      else tv_category category type)"

definition GET_categories :: "env \<Rightarrow> searchParams \<Rightarrow> response \<times> call list" where
  "GET_categories e sp =
     (let kind = or_default (sp ''kind'') ''movie'';
          category = sp ''category'';
          type = sp ''type'';
          pageLimit = parseInt (or_default (sp ''limit'') ''20'');
          pageStart = parseInt (or_default (sp ''start'') ''0'')
      in if kind = [] \<or> \<not> str_truthy category \<or> \<not> str_truthy type
           then (json_error msg_missing_kind_category_type 400, [])
         else if kind \<notin> set [''tv'', ''movie'']
           then (json_error msg_kind_invalid 400, [])
         else if js_lt pageLimit (Num 1) \<or> js_gt pageLimit (Num 100)
           then (json_error msg_pageLimit_range 400, [])
         else if js_lt pageStart (Num 0)
           then (json_error msg_pageStart_negative 400, [])
         else if \<not> str_truthy (apiKey e)
           then (json_error msg_key_missing 500, [])
         else
           (let page = page_of pageStart pageLimit;
                ps0 = obj_set (obj_set (obj_set [] ''page'' (JNum page))
                        ''include_adult'' (JBool False)) ''include_video'' (JBool False);
                base = category_base kind (the category) (the type);
                target = buildTMDBUrl (fst base) (the (apiKey e)) (spread ps0 (snd base))
            in fetch_and_convert e target (error_response msg_category_failed)
                 (if kind = ''movie'' then convertTMDBMovieToDoubanItem
                  else convertTMDBSeriesToDoubanItem)))"

section \<open>The handlers of the two self-contained route files\<close>

text \<open>
  These build the URL as a template string, call \<open>fetch\<close> with no timeout and have one
  \<open>catch\<close> block that answers 500 whatever was thrown. They use the local conversions.
\<close>

definition GET_search_local :: "env \<Rightarrow> searchParams \<Rightarrow> response \<times> call list" where
  "GET_search_local e sp =
     (let tag = sp ''tag'';
          type = sp ''type'';
          pageSize = parseInt (or_default (sp ''pageSize'') ''20'');
          pageStart = parseInt (or_default (sp ''pageStart'') ''0'')
      in if \<not> str_truthy tag \<or> \<not> str_truthy type
           then (json_error msg_missing_tag_type 400, [])
         else if the type \<notin> set [''tv'', ''movie'']
           then (json_error msg_type_invalid 400, [])
         else if js_lt pageSize (Num 1) \<or> js_gt pageSize (Num 100)
           then (json_error msg_pageSize_range 400, [])
         else if js_lt pageStart (Num 0)
           then (json_error msg_pageStart_negative 400, [])
         else if \<not> str_truthy (apiKey e)
           then (json_error msg_key_missing 500, [])
         else
           (let page = page_of pageStart pageSize;
                target = \<lparr> call_endpoint = ''/search/'' @ the type,
                           call_query = [(''api_key'', JStr (the (apiKey e))),
                                         (''language'', JStr ''zh-CN''),
                                         (''query'', JStr (the tag)),
                                         (''page'', JNum page)] \<rparr>
            in fetch_and_convert e target (\<lambda>err. json_error msg_search_failed 500)
                 (if the type = ''movie'' then convertTMDBMovieToDoubanItem_local
                  else convertTMDBSeriesToDoubanItem_local)))"

definition category_endpoint :: "string \<Rightarrow> string \<Rightarrow> string" where
  "category_endpoint kind category =
     (if kind = ''movie'' then
        (if category = tag_popular then ''/movie/popular''
         else if category = tag_latest then ''/movie/now_playing''
         else if category = tag_upcoming then ''/movie/upcoming''
         else if category = tag_top_rated then ''/movie/top_rated''
         else ''/movie/popular'')
      else
        (if category = tag_popular then ''/tv/popular''
         else if category = tag_latest then ''/tv/on_the_air''
         else if category = tag_upcoming then ''/tv/airing_today''
         else if category = tag_top_rated then ''/tv/top_rated''
         else ''/tv/popular''))"

definition GET_categories_local :: "env \<Rightarrow> searchParams \<Rightarrow> response \<times> call list" where
  "GET_categories_local e sp =
     (let kind = or_default (sp ''kind'') ''movie'';
          category = sp ''category'';
          type = sp ''type'';
          pageLimit = parseInt (or_default (sp ''limit'') ''20'');
          pageStart = parseInt (or_default (sp ''start'') ''0'')
      in if kind = [] \<or> \<not> str_truthy category \<or> \<not> str_truthy type
           then (json_error msg_missing_kind_category_type 400, [])
         else if kind \<notin> set [''tv'', ''movie'']
           then (json_error msg_kind_invalid 400, [])
         else if js_lt pageLimit (Num 1) \<or> js_gt pageLimit (Num 100)
           then (json_error msg_pageSize_range 400, [])
         else if js_lt pageStart (Num 0)
           then (json_error msg_pageStart_negative 400, [])
         else if \<not> str_truthy (apiKey e)
           then (json_error msg_key_missing 500, [])
         else
           (let page = page_of pageStart pageLimit;
                target = \<lparr> call_endpoint = category_endpoint kind (the category),
                           call_query = [(''api_key'', JStr (the (apiKey e))),
                                         (''language'', JStr ''zh-CN''),
                                         (''page'', JNum page)] \<rparr>
            in fetch_and_convert e target (\<lambda>err. json_error msg_category_failed 500)
                 (if kind = ''movie'' then convertTMDBMovieToDoubanItem_local
                  else convertTMDBSeriesToDoubanItem_local)))"

section \<open>Notions used to state the properties\<close>

text \<open>A year as the data model wants it: empty, or exactly four digits.\<close>

definition is_year4 :: "string \<Rightarrow> bool" where
  "is_year4 y = (y = [] \<or> (length y = 4 \<and> list_all is_digit y))"

text \<open>Reading a decimal numeral with an optional minus sign, to state what the \<open>id\<close>
  string is. Only the canonical numeral is accepted: no leading zero, no \<open>-0\<close>.\<close>

definition parse_decimal :: "string \<Rightarrow> int option" where
  "parse_decimal s =
     (let neg = starts_with s ''-''; ds = (if neg then tl s else s)
      in if ds = [] \<or> \<not> list_all is_digit ds \<or> (hd ds = CHR ''0'' \<and> (ds \<noteq> ''0'' \<or> neg))
         then None
         else Some ((if neg then - 1 else 1) * int (digits_value 10 ds)))"

text \<open>Upstream items: the documented example, one with absent or empty fields, and one
  whose dates do not start with the year.\<close>

definition example_item :: TMDBItem where
  "example_item =
     \<lparr> tmdb_id = 550, title = ''Fight Club'', original_title = ''Fight Club'',
       name = ''Dark'', original_name = ''Dark'', poster_path = Some ''/a.jpg'',
       release_date = Some ''2021-07-04'', first_air_date = Some ''2021-07-04'',
       vote_average = Some (Num 7) \<rparr>"

definition blank_item :: TMDBItem where
  "blank_item =
     \<lparr> tmdb_id = - 42, title = ''t'', original_title = ''t'',
       name = ''n'', original_name = ''n'', poster_path = None,
       release_date = None, first_air_date = Some [], vote_average = Some (Num 0) \<rparr>"

definition malformed_date_item :: TMDBItem where
  "malformed_date_item =
     \<lparr> tmdb_id = 1, title = ''t'', original_title = ''t'',
       name = ''n'', original_name = ''n'', poster_path = None,
       release_date = Some ''07-04-2021'', first_air_date = Some ''07-04-2021'',
       vote_average = None \<rparr>"

text \<open>The parameter names that the category and type refinements assign.\<close>

definition refinement_keys :: "string set" where
  "refinement_keys = {''sort_by'', ''vote_count.gte'', ''with_origin_country'', ''with_genres''}"

text \<open>An environment with the API key configured whose upstream answers every call with
  one result, and requests used as concrete inputs.\<close>

definition env_ok :: env where
  "env_ok = \<lparr> apiKey = Some ''k'', upstream = (\<lambda>c. Responds 200 (Inr [example_item])) \<rparr>"

definition req_page2 :: searchParams where
  "req_page2 = [''tag'' \<mapsto> ''Inception'', ''type'' \<mapsto> ''movie'', ''pageSize'' \<mapsto> ''20'',
                ''pageStart'' \<mapsto> ''25'']"

definition env_with :: "fetch_outcome \<Rightarrow> env" where
  "env_with outcome = \<lparr> apiKey = Some ''k'', upstream = (\<lambda>c. outcome) \<rparr>"

definition abort_error :: js_error where
  "abort_error = \<lparr> err_name = ''AbortError'', err_message = ''This operation was aborted'' \<rparr>"

definition network_error :: js_error where
  "network_error = \<lparr> err_name = ''TypeError'', err_message = ''fetch failed'' \<rparr>"

definition parse_error_429 :: js_error where
  "parse_error_429 =
     \<lparr> err_name = ''SyntaxError'',
       err_message = ''Unexpected token < in JSON at position 429'' \<rparr>"

definition req_variety_movie :: searchParams where
  "req_variety_movie = [''tag'' \<mapsto> tag_variety, ''type'' \<mapsto> ''movie'']"

definition req_variety_zero :: searchParams where
  "req_variety_zero = [''tag'' \<mapsto> tag_variety, ''type'' \<mapsto> ''movie'', ''pageSize'' \<mapsto> ''0'']"

definition req_movie_show :: searchParams where
  "req_movie_show = [''kind'' \<mapsto> ''movie'', ''category'' \<mapsto> ''show'', ''type'' \<mapsto> ''show'']"

definition req_no_kind :: searchParams where
  "req_no_kind = [''category'' \<mapsto> tag_popular, ''type'' \<mapsto> tag_chinese]"

definition req_size_101 :: searchParams where
  "req_size_101 = [''category'' \<mapsto> tag_popular, ''type'' \<mapsto> tag_chinese, ''limit'' \<mapsto> ''101'']"

definition req_negative_start :: searchParams where
  "req_negative_start =
     [''tag'' \<mapsto> ''Inception'', ''type'' \<mapsto> ''movie'', ''pageStart'' \<mapsto> ''-1'']"

definition req_nan_size :: searchParams where
  "req_nan_size = [''tag'' \<mapsto> ''Inception'', ''type'' \<mapsto> ''movie'', ''pageSize'' \<mapsto> ''abc'']"

definition req_nan_limit :: searchParams where
  "req_nan_limit = [''category'' \<mapsto> tag_popular, ''type'' \<mapsto> ''x'', ''limit'' \<mapsto> ''abc'']"


section \<open>Properties\<close>

subsection \<open>Year extraction\<close>

lemma match_d4_Some: "match_d4 s = Some m \<Longrightarrow> length m = 4 \<and> list_all is_digit m"
  by (induction s) (auto split: if_splits)

lemma not_digit_hyphen: "is_digit c \<Longrightarrow> c \<noteq> CHR ''-''"
  by (auto simp: is_digit_def)

lemma split_first_year:
  assumes "list_all is_digit y" "r = [] \<or> hd r = CHR ''-''"
  shows "split_first (y @ r) = y"
proof -
  have "\<forall>c \<in> set y. c \<noteq> CHR ''-''" using assms(1) not_digit_hyphen by (auto simp: list_all_iff)
  then have "takeWhile (\<lambda>c. c \<noteq> CHR ''-'') (y @ r) = y @ takeWhile (\<lambda>c. c \<noteq> CHR ''-'') r"
    by (simp add: takeWhile_append2)
  moreover have "takeWhile (\<lambda>c. c \<noteq> CHR ''-'') r = []" using assms(2) by (cases r) auto
  ultimately show ?thesis by (simp add: split_first_def)
qed

lemma length4: "length y = 4 \<Longrightarrow> \<exists>a b c d. y = [a, b, c, d]"
  by (auto simp: numeral_eq_Suc length_Suc_conv)

lemma match_d4_year:
  assumes "length y = 4" "list_all is_digit y"
  shows "match_d4 (y @ r) = Some y"
proof -
  obtain a b c d where y: "y = [a, b, c, d]" using assms(1) length4 by blast
  show ?thesis using assms(2) by (simp add: y)
qed

lemma extractYear_is_year4: "is_year4 (extractYear d)"
  by (auto simp: extractYear_def is_year4_def dest: match_d4_Some split: option.splits)

subsection \<open>Decimal strings\<close>

lemma below_ten: "d < (10::nat) \<Longrightarrow> d \<in> set [0, 1, 2, 3, 4, 5, 6, 7, 8, 9]"
  by (simp only: set_simps insert_iff empty_iff) arith

lemma is_digit_digit_char: "is_digit (digit_char k)"
proof -
  have "\<forall>d \<in> set [0, 1, 2, 3, 4, 5, 6, 7, 8, 9::nat]. is_digit (''0123456789'' ! d)"
    by (simp add: is_digit_def)
  moreover have "k mod 10 \<in> set [0, 1, 2, 3, 4, 5, 6, 7, 8, 9]" by (rule below_ten) simp
  ultimately show ?thesis unfolding digit_char_def by blast
qed

lemma digit_val_digit_char: "digit_val (digit_char k) = k mod 10"
proof -
  have "\<forall>d \<in> set [0, 1, 2, 3, 4, 5, 6, 7, 8, 9::nat]. digit_val (''0123456789'' ! d) = d"
    by (simp add: digit_val_def is_digit_def)
  moreover have "k mod 10 \<in> set [0, 1, 2, 3, 4, 5, 6, 7, 8, 9]" by (rule below_ten) simp
  ultimately show ?thesis unfolding digit_char_def by blast
qed

lemma dec_digits: "list_all is_digit (dec n)"
proof (induction n rule: dec.induct)
  case (1 n)
  show ?case using 1 by (subst dec.simps) (auto simp: is_digit_digit_char)
qed

lemma dec_nonempty: "dec n \<noteq> []"
  by (subst dec.simps) simp

lemma digits_value_snoc: "digits_value r (ds @ [c]) = digits_value r ds * r + digit_val c"
  by (simp add: digits_value_def)

lemma digits_value_dec: "digits_value 10 (dec n) = n"
proof (induction n rule: dec.induct)
  case (1 n)
  show ?case
  proof (cases "n < 10")
    case True
    then show ?thesis by (subst dec.simps) (simp add: digits_value_def digit_val_digit_char)
  next
    case False
    then have "digits_value 10 (dec n) = digits_value 10 (dec (n div 10)) * 10 + n mod 10"
      by (subst dec.simps) (simp add: digits_value_snoc digit_val_digit_char)
    then show ?thesis using 1 False by simp
  qed
qed

lemma dec_no_sign: "\<not> starts_with (dec n) ''-''"
proof -
  obtain c cs where d: "dec n = c # cs" using dec_nonempty by (cases "dec n") auto
  have "is_digit c" using dec_digits[of n] by (simp add: d)
  then show ?thesis by (auto simp: d dest: not_digit_hyphen)
qed

lemma digit_char_zero: "digit_char n = CHR ''0'' \<Longrightarrow> n mod 10 = 0"
proof -
  assume "digit_char n = CHR ''0''"
  then have "digit_val (digit_char n) = digit_val CHR ''0''" by simp
  then show ?thesis by (simp add: digit_val_digit_char) (simp add: digit_val_def is_digit_def)
qed

lemma dec_leading_zero: "hd (dec n) = CHR ''0'' \<Longrightarrow> n = 0"
proof (induction n rule: dec.induct)
  case (1 n)
  show ?case
  proof (cases "n < 10")
    case True
    then have "dec n = [digit_char n]" by (subst dec.simps) simp
    with "1.prems" have "n mod 10 = 0" by (simp add: digit_char_zero)
    with True show ?thesis by simp
  next
    case False
    then have "dec n = dec (n div 10) @ [digit_char (n mod 10)]" by (subst dec.simps) simp
    with "1.prems" have "hd (dec (n div 10)) = CHR ''0''" by (simp add: dec_nonempty)
    with False "1.IH" have "n div 10 = 0" by simp
    with False show ?thesis by simp
  qed
qed

lemma dec_zero: "dec 0 = ''0''"
  by (subst dec.simps) (simp add: digit_char_def)

lemma parse_decimal_int_toString: "parse_decimal (int_toString i) = Some i"
proof (cases "i < 0")
  case True
  then have "hd (dec (nat (- i))) \<noteq> CHR ''0''" using dec_leading_zero [of "nat (- i)"] by auto
  with True show ?thesis
    by (simp add: parse_decimal_def int_toString_def dec_nonempty dec_digits digits_value_dec)
next
  case False
  have "dec (nat i) = ''0''" if "hd (dec (nat i)) = CHR ''0''"
    using that dec_leading_zero [of "nat i"] by (simp add: dec_zero)
  with False show ?thesis
    by (auto simp: parse_decimal_def int_toString_def dec_no_sign dec_nonempty dec_digits
        digits_value_dec Let_def)
qed

subsection \<open>Parameter objects\<close>

lemma map_of_obj_set: "map_of (obj_set ps k v) = (map_of ps)(k \<mapsto> v)"
  by (simp add: obj_set_def update_conv')

lemma distinct_obj_set: "distinct (map fst ps) \<Longrightarrow> distinct (map fst (obj_set ps k v))"
  by (simp add: obj_set_def distinct_update)

lemma cleanParams_foldl: "cleanParams ps = foldl set_present [] ps"
  by (simp add: cleanParams_def)

lemma buildTMDBUrl_foldl:
  "call_query (buildTMDBUrl ep key ps) =
     foldl set_present
       [(''api_key'', JStr key), (''language'', JStr ''zh-CN''), (''region'', JStr ''CN'')] ps"
  by (simp add: buildTMDBUrl_def)

lemma distinct_set_present:
  "distinct (map fst q) \<Longrightarrow> distinct (map fst (foldl set_present q ps))"
  by (induction ps arbitrary: q) (auto simp: set_present_def distinct_obj_set)

lemma set_present_other:
  "k \<notin> fst ` set ps \<Longrightarrow> map_of (foldl set_present q ps) k = map_of q k"
  by (induction ps arbitrary: q) (auto simp: set_present_def map_of_obj_set)

lemma set_present_lookup:
  "distinct (map fst ps) \<Longrightarrow> map_of ps k = Some v \<Longrightarrow> v \<noteq> JUndefined \<Longrightarrow> v \<noteq> JNull \<Longrightarrow>
   map_of (foldl set_present q ps) k = Some v"
proof (induction ps arbitrary: q)
  case Nil
  then show ?case by simp
next
  case (Cons p ps)
  obtain k' v' where p: "p = (k', v')" by (cases p)
  show ?case
  proof (cases "k' = k")
    case True
    with Cons.prems p have "v' = v" "k \<notin> fst ` set ps" by auto
    with Cons.prems p True show ?thesis
      by (simp add: set_present_other) (simp add: set_present_def map_of_obj_set)
  next
    case False
    with Cons.prems p have "map_of ps k = Some v" "distinct (map fst ps)" by auto
    with Cons.prems Cons.IH show ?thesis by simp
  qed
qed

lemma distinct_spread: "distinct (map fst a) \<Longrightarrow> distinct (map fst (spread a b))"
  unfolding spread_def by (induction b arbitrary: a) (auto simp: distinct_obj_set)

lemma spread_single: "spread a [(k, v)] = obj_set a k v"
  by (simp add: spread_def)

lemma spread_other: "k \<notin> fst ` set b \<Longrightarrow> map_of (spread a b) k = map_of a k"
  unfolding spread_def by (induction b arbitrary: a) (auto simp: map_of_obj_set)

text \<open>What a call built by \<open>buildTMDBUrl\<close> from cleaned parameters carries.\<close>

lemma built_query_lookup:
  assumes "distinct (map fst ps)" "map_of ps k = Some v" "v \<noteq> JUndefined" "v \<noteq> JNull"
  shows "map_of (call_query (buildTMDBUrl ep key (cleanParams ps))) k = Some v"
proof -
  have "map_of (cleanParams ps) k = Some v"
    using assms by (simp add: cleanParams_foldl set_present_lookup)
  moreover have "distinct (map fst (cleanParams ps))"
    by (simp add: cleanParams_foldl distinct_set_present)
  ultimately show ?thesis using assms(3,4) by (simp add: buildTMDBUrl_foldl set_present_lookup)
qed

lemma built_query_lookup_raw:
  assumes "distinct (map fst ps)" "map_of ps k = Some v" "v \<noteq> JUndefined" "v \<noteq> JNull"
  shows "map_of (call_query (buildTMDBUrl ep key ps)) k = Some v"
  using assms by (simp add: buildTMDBUrl_foldl set_present_lookup)

subsection \<open>The strategy resolver\<close>

lemma strategy_params_distinct: "distinct (map fst (params (getSearchStrategy tag type)))"
  by (cases "type = ''movie''"; cases "type = ''tv''")
     (simp_all add: getSearchStrategy_def discover_by_def spread_def obj_set_def baseParams_def)

lemma strategy_include_adult:
  "map_of (params (getSearchStrategy tag type)) ''include_adult'' = Some (JBool False)"
  by (cases "type = ''movie''"; cases "type = ''tv''")
     (simp_all add: getSearchStrategy_def discover_by_def spread_def obj_set_def baseParams_def)

lemma strategy_include_video:
  "map_of (params (getSearchStrategy tag type)) ''include_video'' = Some (JBool False)"
  by (cases "type = ''movie''"; cases "type = ''tv''")
     (simp_all add: getSearchStrategy_def discover_by_def spread_def obj_set_def baseParams_def)

lemma strategy_no_page:
  "map_of (params (getSearchStrategy tag type)) ''page'' = None"
  by (cases "type = ''movie''"; cases "type = ''tv''")
     (simp_all add: getSearchStrategy_def discover_by_def spread_def obj_set_def baseParams_def)

lemma strategy_search_movie:
  "tag \<notin> set known_movie_tags \<Longrightarrow>
   getSearchStrategy tag ''movie'' =
     \<lparr> endpoint = ''/search/movie'', params = baseParams @ [(''query'', JStr tag)] \<rparr>"
  by (simp add: getSearchStrategy_def known_movie_tags_def spread_def obj_set_def baseParams_def)

lemma strategy_search_tv:
  "tag \<notin> set known_tv_tags \<Longrightarrow>
   getSearchStrategy tag ''tv'' =
     \<lparr> endpoint = ''/search/tv'', params = baseParams @ [(''query'', JStr tag)] \<rparr>"
  by (simp add: getSearchStrategy_def known_tv_tags_def spread_def obj_set_def baseParams_def)

subsection \<open>The calls a handler makes\<close>

lemma fetch_and_convert_calls: "snd (fetch_and_convert e t recover conv) = [t]"
  by (simp add: fetch_and_convert_def split: fetch_outcome.split sum.split)

lemma GET_search_made_call:
  assumes "c \<in> set (snd (GET_search e sp))"
  shows "str_truthy (sp ''tag'') \<and> str_truthy (sp ''type'') \<and>
         the (sp ''type'') \<in> set [''tv'', ''movie''] \<and>
         \<not> js_lt (parseInt (or_default (sp ''pageSize'') ''20'')) (Num 1) \<and>
         \<not> js_gt (parseInt (or_default (sp ''pageSize'') ''20'')) (Num 100) \<and>
         \<not> js_lt (parseInt (or_default (sp ''pageStart'') ''0'')) (Num 0) \<and>
         str_truthy (apiKey e) \<and>
         c = buildTMDBUrl (endpoint (getSearchStrategy (the (sp ''tag'')) (the (sp ''type''))))
               (the (apiKey e))
               (cleanParams (spread (params (getSearchStrategy (the (sp ''tag'')) (the (sp ''type''))))
                  [(''page'', JNum (page_of (parseInt (or_default (sp ''pageStart'') ''0''))
                                           (parseInt (or_default (sp ''pageSize'') ''20''))))])) \<and>
         GET_search e sp =
           fetch_and_convert e c (error_response msg_search_failed)
             (if the (sp ''type'') = ''movie'' then convertTMDBMovieToDoubanItem
              else convertTMDBSeriesToDoubanItem)"
  using assms unfolding GET_search_def Let_def
  by (simp add: fetch_and_convert_calls split: if_split_asm)

lemma GET_categories_made_call:
  assumes "c \<in> set (snd (GET_categories e sp))"
  shows "str_truthy (sp ''category'') \<and> str_truthy (sp ''type'') \<and>
         or_default (sp ''kind'') ''movie'' \<in> set [''tv'', ''movie''] \<and>
         \<not> js_lt (parseInt (or_default (sp ''limit'') ''20'')) (Num 1) \<and>
         \<not> js_gt (parseInt (or_default (sp ''limit'') ''20'')) (Num 100) \<and>
         \<not> js_lt (parseInt (or_default (sp ''start'') ''0'')) (Num 0) \<and>
         str_truthy (apiKey e) \<and>
         c = buildTMDBUrl
               (fst (category_base (or_default (sp ''kind'') ''movie'') (the (sp ''category''))
                  (the (sp ''type''))))
               (the (apiKey e))
               (spread
                  [(''page'', JNum (page_of (parseInt (or_default (sp ''start'') ''0''))
                                           (parseInt (or_default (sp ''limit'') ''20'')))),
                   (''include_adult'', JBool False), (''include_video'', JBool False)]
                  (snd (category_base (or_default (sp ''kind'') ''movie'') (the (sp ''category''))
                     (the (sp ''type''))))) \<and>
         GET_categories e sp =
           fetch_and_convert e c (error_response msg_category_failed)
             (if or_default (sp ''kind'') ''movie'' = ''movie'' then convertTMDBMovieToDoubanItem
              else convertTMDBSeriesToDoubanItem)"
  using assms unfolding GET_categories_def Let_def
  by (simp add: fetch_and_convert_calls obj_set_def split: if_split_asm)

lemma GET_search_local_made_call:
  assumes "c \<in> set (snd (GET_search_local e sp))"
  shows "str_truthy (sp ''tag'') \<and> str_truthy (sp ''type'') \<and>
         the (sp ''type'') \<in> set [''tv'', ''movie''] \<and>
         \<not> js_lt (parseInt (or_default (sp ''pageSize'') ''20'')) (Num 1) \<and>
         \<not> js_gt (parseInt (or_default (sp ''pageSize'') ''20'')) (Num 100) \<and>
         \<not> js_lt (parseInt (or_default (sp ''pageStart'') ''0'')) (Num 0) \<and>
         str_truthy (apiKey e) \<and>
         c = \<lparr> call_endpoint = ''/search/'' @ the (sp ''type''),
               call_query = [(''api_key'', JStr (the (apiKey e))),
                             (''language'', JStr ''zh-CN''),
                             (''query'', JStr (the (sp ''tag''))),
                             (''page'', JNum (page_of (parseInt (or_default (sp ''pageStart'') ''0''))
                                           (parseInt (or_default (sp ''pageSize'') ''20''))))] \<rparr> \<and>
         GET_search_local e sp =
           fetch_and_convert e c (\<lambda>err. json_error msg_search_failed 500)
             (if the (sp ''type'') = ''movie'' then convertTMDBMovieToDoubanItem_local
              else convertTMDBSeriesToDoubanItem_local)"
  using assms unfolding GET_search_local_def Let_def
  by (simp add: fetch_and_convert_calls split: if_split_asm)

lemma GET_categories_local_made_call:
  assumes "c \<in> set (snd (GET_categories_local e sp))"
  shows "str_truthy (sp ''category'') \<and> str_truthy (sp ''type'') \<and>
         or_default (sp ''kind'') ''movie'' \<in> set [''tv'', ''movie''] \<and>
         \<not> js_lt (parseInt (or_default (sp ''limit'') ''20'')) (Num 1) \<and>
         \<not> js_gt (parseInt (or_default (sp ''limit'') ''20'')) (Num 100) \<and>
         \<not> js_lt (parseInt (or_default (sp ''start'') ''0'')) (Num 0) \<and>
         str_truthy (apiKey e) \<and>
         c = \<lparr> call_endpoint =
                 category_endpoint (or_default (sp ''kind'') ''movie'') (the (sp ''category'')),
               call_query = [(''api_key'', JStr (the (apiKey e))),
                             (''language'', JStr ''zh-CN''),
                             (''page'', JNum (page_of (parseInt (or_default (sp ''start'') ''0''))
                                           (parseInt (or_default (sp ''limit'') ''20''))))] \<rparr> \<and>
         GET_categories_local e sp =
           fetch_and_convert e c (\<lambda>err. json_error msg_category_failed 500)
             (if or_default (sp ''kind'') ''movie'' = ''movie''
              then convertTMDBMovieToDoubanItem_local
              else convertTMDBSeriesToDoubanItem_local)"
  using assms unfolding GET_categories_local_def Let_def
  by (simp add: fetch_and_convert_calls split: if_split_asm)

subsection \<open>The parameters of the calls\<close>

lemma keys_obj_set: "fst ` set (obj_set ps k v) = insert k (fst ` set ps)"
  by (simp add: obj_set_def dom_update)

lemma keys_movie_category: "fst ` set (snd (movie_category c)) \<subseteq> refinement_keys"
  by (simp add: movie_category_def keys_obj_set refinement_keys_def)

lemma keys_movie_region:
  "fst ` set (snd st) \<subseteq> refinement_keys \<Longrightarrow>
   fst ` set (snd (movie_region cc st)) \<subseteq> refinement_keys"
  by (auto simp: movie_region_def keys_obj_set refinement_keys_def)

lemma keys_movie_genre:
  "fst ` set (snd st) \<subseteq> refinement_keys \<Longrightarrow>
   fst ` set (snd (movie_genre g st)) \<subseteq> refinement_keys"
  by (auto simp: movie_genre_def keys_obj_set refinement_keys_def)

lemma keys_movie_type:
  "fst ` set (snd st) \<subseteq> refinement_keys \<Longrightarrow>
   fst ` set (snd (movie_type t st)) \<subseteq> refinement_keys"
  by (simp add: movie_type_def keys_movie_region keys_movie_genre)

lemma keys_tv_discover:
  "fst ` set kvs \<subseteq> refinement_keys \<Longrightarrow> fst ` set (snd (tv_discover kvs)) \<subseteq> refinement_keys"
proof -
  have "fst ` set (foldl (\<lambda>acc kv. obj_set acc (fst kv) (JStr (snd kv))) q kvs)
          = fst ` set q \<union> fst ` set kvs" for q
    by (induction kvs arbitrary: q) (auto simp: keys_obj_set)
  then show "fst ` set kvs \<subseteq> refinement_keys \<Longrightarrow> ?thesis"
    by (auto simp: tv_discover_def keys_obj_set refinement_keys_def)
qed

lemma keys_tv_category: "fst ` set (snd (tv_category c t)) \<subseteq> refinement_keys"
proof -
  have k: "fst ` set (snd (tv_discover [(''with_origin_country'', cc)])) \<subseteq> refinement_keys"
    "fst ` set (snd (tv_discover [(''with_genres'', g)])) \<subseteq> refinement_keys"
    "fst ` set (snd (tv_discover [(''with_genres'', g), (''with_origin_country'', cc)]))
       \<subseteq> refinement_keys" for cc g
    by (rule keys_tv_discover, simp add: refinement_keys_def)+
  show ?thesis
    by (cases "c = ''tv''"; cases "c = ''show''") (simp_all add: tv_category_def k)
qed

lemma keys_category_base: "fst ` set (snd (category_base k c t)) \<subseteq> refinement_keys"
  by (simp add: category_base_def keys_movie_type keys_movie_category keys_tv_category)

lemma baseline_not_refinement:
  "''page'' \<notin> refinement_keys" "''include_adult'' \<notin> refinement_keys"
  "''include_video'' \<notin> refinement_keys"
  by (simp_all add: refinement_keys_def)

lemma search_call_page:
  assumes "c \<in> set (snd (GET_search e sp))"
  shows "map_of (call_query c) ''page'' =
           Some (JNum (page_of (parseInt (or_default (sp ''pageStart'') ''0''))
                               (parseInt (or_default (sp ''pageSize'') ''20''))))"
proof -
  let ?s = "getSearchStrategy (the (sp ''tag'')) (the (sp ''type''))"
  let ?p = "JNum (page_of (parseInt (or_default (sp ''pageStart'') ''0''))
                          (parseInt (or_default (sp ''pageSize'') ''20'')))"
  have c: "c = buildTMDBUrl (endpoint ?s) (the (apiKey e))
                 (cleanParams (spread (params ?s) [(''page'', ?p)]))"
    using GET_search_made_call [OF assms] by simp
  have "distinct (map fst (spread (params ?s) [(''page'', ?p)]))"
    by (simp add: distinct_spread strategy_params_distinct)
  moreover have "map_of (spread (params ?s) [(''page'', ?p)]) ''page'' = Some ?p"
    by (simp add: spread_single map_of_obj_set)
  ultimately show ?thesis by (subst c) (rule built_query_lookup, simp_all)
qed

lemma search_call_baseline:
  assumes "c \<in> set (snd (GET_search e sp))"
    and "k = ''include_adult'' \<or> k = ''include_video''"
  shows "map_of (call_query c) k = Some (JBool False)"
proof -
  let ?s = "getSearchStrategy (the (sp ''tag'')) (the (sp ''type''))"
  let ?p = "JNum (page_of (parseInt (or_default (sp ''pageStart'') ''0''))
                          (parseInt (or_default (sp ''pageSize'') ''20'')))"
  have c: "c = buildTMDBUrl (endpoint ?s) (the (apiKey e))
                 (cleanParams (spread (params ?s) [(''page'', ?p)]))"
    using GET_search_made_call [OF assms(1)] by simp
  have "distinct (map fst (spread (params ?s) [(''page'', ?p)]))"
    by (simp add: distinct_spread strategy_params_distinct)
  moreover have "map_of (spread (params ?s) [(''page'', ?p)]) k = Some (JBool False)"
    using assms(2)
    by (auto simp: spread_single map_of_obj_set strategy_include_adult strategy_include_video)
  ultimately show ?thesis by (subst c) (rule built_query_lookup, simp_all)
qed

lemma categories_call_lookup:
  assumes "c \<in> set (snd (GET_categories e sp))"
  shows "map_of (call_query c) ''page'' =
           Some (JNum (page_of (parseInt (or_default (sp ''start'') ''0''))
                               (parseInt (or_default (sp ''limit'') ''20'')))) \<and>
         map_of (call_query c) ''include_adult'' = Some (JBool False) \<and>
         map_of (call_query c) ''include_video'' = Some (JBool False)"
proof -
  let ?b = "category_base (or_default (sp ''kind'') ''movie'') (the (sp ''category''))
              (the (sp ''type''))"
  let ?p = "JNum (page_of (parseInt (or_default (sp ''start'') ''0''))
                          (parseInt (or_default (sp ''limit'') ''20'')))"
  let ?ps0 = "[(''page'', ?p), (''include_adult'', JBool False), (''include_video'', JBool False)]"
  have c: "c = buildTMDBUrl (fst ?b) (the (apiKey e)) (spread ?ps0 (snd ?b))"
    using GET_categories_made_call [OF assms] by simp
  have d: "distinct (map fst (spread ?ps0 (snd ?b)))"
    by (rule distinct_spread) simp
  have n: "''page'' \<notin> fst ` set (snd ?b)" "''include_adult'' \<notin> fst ` set (snd ?b)"
    "''include_video'' \<notin> fst ` set (snd ?b)"
    using keys_category_base [of "or_default (sp ''kind'') ''movie''" "the (sp ''category'')"
        "the (sp ''type'')"] baseline_not_refinement by blast+
  have l: "map_of (spread ?ps0 (snd ?b)) ''page'' = Some ?p"
    "map_of (spread ?ps0 (snd ?b)) ''include_adult'' = Some (JBool False)"
    "map_of (spread ?ps0 (snd ?b)) ''include_video'' = Some (JBool False)"
    using n by (simp_all add: spread_other)
  show ?thesis
    by (subst (1 2 3) c) (intro conjI built_query_lookup_raw d l; simp)
qed




subsection \<open>C1: the year field\<close>

lemma year_utils_movie:
  "year (convertTMDBMovieToDoubanItem m) =
     (case release_date m of None \<Rightarrow> [] | Some d \<Rightarrow> split_first d)"
  by (cases "release_date m") (auto simp: convertTMDBMovieToDoubanItem_def split_first_def)

lemma year_utils_series:
  "year (convertTMDBSeriesToDoubanItem m) =
     (case first_air_date m of None \<Rightarrow> [] | Some d \<Rightarrow> split_first d)"
  by (cases "first_air_date m") (auto simp: convertTMDBSeriesToDoubanItem_def split_first_def)

lemma extractYear_wellformed:
  "length y = 4 \<Longrightarrow> list_all is_digit y \<Longrightarrow> extractYear (Some (y @ r)) = y"
  by (auto simp: extractYear_def match_d4_year)

text \<open>
  C1, as amended. The code has two extraction rules, not one. The route-local conversions
  (\<open>extractYear\<close>, the first run of four digits) always give a year that is empty or
  exactly four digits. The conversions of tmdb.utils give the part of the date before its
  first hyphen, whatever it is. On a date that starts with four digits followed by a
  hyphen or by nothing, both rules give those four digits.
\<close>

theorem C1_year_rules:
  "is_year4 (year (convertTMDBMovieToDoubanItem_local m)) \<and>
   is_year4 (year (convertTMDBSeriesToDoubanItem_local m)) \<and>
   year (convertTMDBMovieToDoubanItem m) =
     (case release_date m of None \<Rightarrow> [] | Some d \<Rightarrow> split_first d) \<and>
   year (convertTMDBSeriesToDoubanItem m) =
     (case first_air_date m of None \<Rightarrow> [] | Some d \<Rightarrow> split_first d) \<and>
   (length y = 4 \<and> list_all is_digit y \<and> (r = [] \<or> hd r = CHR ''-'') \<longrightarrow>
      (release_date m = Some (y @ r) \<longrightarrow>
         year (convertTMDBMovieToDoubanItem m) = y \<and>
         year (convertTMDBMovieToDoubanItem_local m) = y) \<and>
      (first_air_date m = Some (y @ r) \<longrightarrow>
         year (convertTMDBSeriesToDoubanItem m) = y \<and>
         year (convertTMDBSeriesToDoubanItem_local m) = y))"
proof -
  have a: "is_year4 (year (convertTMDBMovieToDoubanItem_local m))"
    by (simp add: convertTMDBMovieToDoubanItem_local_def extractYear_is_year4)
  have b: "is_year4 (year (convertTMDBSeriesToDoubanItem_local m))"
    by (simp add: convertTMDBSeriesToDoubanItem_local_def extractYear_is_year4)
  have c: "year (convertTMDBMovieToDoubanItem m) = y \<and>
           year (convertTMDBMovieToDoubanItem_local m) = y"
    if "length y = 4" "list_all is_digit y" "r = [] \<or> hd r = CHR ''-''"
       "release_date m = Some (y @ r)"
    using that
    by (simp add: year_utils_movie split_first_year convertTMDBMovieToDoubanItem_local_def
        extractYear_wellformed)
  have d: "year (convertTMDBSeriesToDoubanItem m) = y \<and>
           year (convertTMDBSeriesToDoubanItem_local m) = y"
    if "length y = 4" "list_all is_digit y" "r = [] \<or> hd r = CHR ''-''"
       "first_air_date m = Some (y @ r)"
    using that
    by (simp add: year_utils_series split_first_year convertTMDBSeriesToDoubanItem_local_def
        extractYear_wellformed)
  show ?thesis using a b c d year_utils_movie year_utils_series by blast
qed

text \<open>The documented example date satisfies the hypotheses of C1.\<close>

theorem C1_year_rules_witness:
  "is_year4 (year (convertTMDBMovieToDoubanItem_local example_item)) \<and>
   release_date example_item = Some (''2021'' @ ''-07-04'') \<and>
   first_air_date example_item = Some (''2021'' @ ''-07-04'') \<and>
   length ''2021'' = 4 \<and> list_all is_digit ''2021'' \<and> hd ''-07-04'' = CHR ''-'' \<and>
   year (convertTMDBMovieToDoubanItem example_item) = ''2021'' \<and>
   year (convertTMDBMovieToDoubanItem_local example_item) = ''2021'' \<and>
   year (convertTMDBSeriesToDoubanItem example_item) = ''2021'' \<and>
   year (convertTMDBSeriesToDoubanItem_local example_item) = ''2021''"
proof -
  have h: "length ''2021'' = 4 \<and> list_all is_digit ''2021'' \<and>
           (''-07-04'' = [] \<or> hd ''-07-04'' = CHR ''-'')"
    by (simp add: is_digit_def)
  have r: "release_date example_item = Some (''2021'' @ ''-07-04'')"
          "first_air_date example_item = Some (''2021'' @ ''-07-04'')"
    by (simp_all add: example_item_def)
  from C1_year_rules [of example_item "''2021''" "''-07-04''"] h r show ?thesis
    by (simp add: is_year4_def is_digit_def split_first_def)
qed

text \<open>
  C1 as stated fails: for the date \<open>07-04-2021\<close> the conversions of tmdb.utils give the
  year \<open>07\<close>, which is neither empty nor four digits, and the route-local rule gives a
  different year, \<open>2021\<close>, for the same item.
\<close>

theorem C1_counterexample:
  "year (convertTMDBSeriesToDoubanItem malformed_date_item) = ''07'' \<and>
   \<not> is_year4 (year (convertTMDBSeriesToDoubanItem malformed_date_item)) \<and>
   year (convertTMDBMovieToDoubanItem malformed_date_item) = ''07'' \<and>
   \<not> is_year4 (year (convertTMDBMovieToDoubanItem malformed_date_item)) \<and>
   year (convertTMDBMovieToDoubanItem_local malformed_date_item) = ''2021''"
  by (simp add: convertTMDBSeriesToDoubanItem_def convertTMDBMovieToDoubanItem_def
      convertTMDBMovieToDoubanItem_local_def malformed_date_item_def split_first_def
      extractYear_def is_year4_def is_digit_def)

subsection \<open>C8: normalization of one item\<close>

lemma toFixed1_seven: "toFixed1 (Num 7) = ''7.0''"
  by code_simp

lemma split_first_example: "split_first ''2021-07-04'' = ''2021''"
  by (simp add: split_first_def)

lemma extractYear_example: "extractYear (Some ''2021-07-04'') = ''2021''"
  by (simp add: extractYear_def is_digit_def)

text \<open>
  C8. For every upstream item \<open>m\<close>, in the conversions of tmdb.utils and in the route-local
  ones: the date \<open>2021-07-04\<close> gives the year \<open>2021\<close> and the rating 7.0 gives the
  rate \<open>7.0\<close>; an absent or empty date gives the empty year, an absent or zero rating the
  empty rate; an absent or empty poster path gives the empty poster and a path \<open>p\<close> gives
  \<open>https://image.tmdb.org/t/p/w500\<close> followed by \<open>p\<close>; the id is the canonical decimal
  numeral of the upstream id, for an id of magnitude below \<open>2^53\<close>. Rate, poster and id are
  the same in all four conversions.
\<close>

theorem C8_normalization:
  "(release_date m = Some ''2021-07-04'' \<longrightarrow>
      year (convertTMDBMovieToDoubanItem m) = ''2021'' \<and>
      year (convertTMDBMovieToDoubanItem_local m) = ''2021'') \<and>
   (first_air_date m = Some ''2021-07-04'' \<longrightarrow>
      year (convertTMDBSeriesToDoubanItem m) = ''2021'' \<and>
      year (convertTMDBSeriesToDoubanItem_local m) = ''2021'') \<and>
   (release_date m = None \<or> release_date m = Some [] \<longrightarrow>
      year (convertTMDBMovieToDoubanItem m) = [] \<and>
      year (convertTMDBMovieToDoubanItem_local m) = []) \<and>
   (first_air_date m = None \<or> first_air_date m = Some [] \<longrightarrow>
      year (convertTMDBSeriesToDoubanItem m) = [] \<and>
      year (convertTMDBSeriesToDoubanItem_local m) = []) \<and>
   (vote_average m = Some (Num 7) \<longrightarrow> rate (convertTMDBMovieToDoubanItem m) = ''7.0'') \<and>
   (vote_average m = None \<or> vote_average m = Some (Num 0) \<longrightarrow>
      rate (convertTMDBMovieToDoubanItem m) = []) \<and>
   (poster_path m = None \<or> poster_path m = Some [] \<longrightarrow>
      poster (convertTMDBMovieToDoubanItem m) = []) \<and>
   (poster_path m = Some p \<and> p \<noteq> [] \<longrightarrow>
      poster (convertTMDBMovieToDoubanItem m) = ''https://image.tmdb.org/t/p/w500'' @ p) \<and>
   (\<bar>tmdb_id m\<bar> < 2 ^ 53 \<longrightarrow>
      parse_decimal (item_id (convertTMDBMovieToDoubanItem m)) = Some (tmdb_id m)) \<and>
   (\<forall>conv \<in> set [convertTMDBSeriesToDoubanItem, convertTMDBMovieToDoubanItem_local,
                   convertTMDBSeriesToDoubanItem_local].
      rate (conv m) = rate (convertTMDBMovieToDoubanItem m) \<and>
      poster (conv m) = poster (convertTMDBMovieToDoubanItem m) \<and>
      item_id (conv m) = item_id (convertTMDBMovieToDoubanItem m))"
proof -
  have y1: "release_date m = Some ''2021-07-04'' \<longrightarrow>
      year (convertTMDBMovieToDoubanItem m) = ''2021'' \<and>
      year (convertTMDBMovieToDoubanItem_local m) = ''2021''"
    by (simp add: convertTMDBMovieToDoubanItem_def convertTMDBMovieToDoubanItem_local_def
        split_first_example extractYear_example)
  have y2: "first_air_date m = Some ''2021-07-04'' \<longrightarrow>
      year (convertTMDBSeriesToDoubanItem m) = ''2021'' \<and>
      year (convertTMDBSeriesToDoubanItem_local m) = ''2021''"
    by (simp add: convertTMDBSeriesToDoubanItem_def convertTMDBSeriesToDoubanItem_local_def
        split_first_example extractYear_example)
  have y3: "release_date m = None \<or> release_date m = Some [] \<longrightarrow>
      year (convertTMDBMovieToDoubanItem m) = [] \<and>
      year (convertTMDBMovieToDoubanItem_local m) = []"
    by (auto simp: convertTMDBMovieToDoubanItem_def convertTMDBMovieToDoubanItem_local_def
        extractYear_def)
  have y4: "first_air_date m = None \<or> first_air_date m = Some [] \<longrightarrow>
      year (convertTMDBSeriesToDoubanItem m) = [] \<and>
      year (convertTMDBSeriesToDoubanItem_local m) = []"
    by (auto simp: convertTMDBSeriesToDoubanItem_def convertTMDBSeriesToDoubanItem_local_def
        extractYear_def)
  have r1: "vote_average m = Some (Num 7) \<longrightarrow> rate (convertTMDBMovieToDoubanItem m) = ''7.0''"
    by (simp add: convertTMDBMovieToDoubanItem_def toFixed1_seven del: toFixed1.simps)
  have r2: "vote_average m = None \<or> vote_average m = Some (Num 0) \<longrightarrow>
      rate (convertTMDBMovieToDoubanItem m) = []"
    by (auto simp: convertTMDBMovieToDoubanItem_def)
  have p1: "poster_path m = None \<or> poster_path m = Some [] \<longrightarrow>
      poster (convertTMDBMovieToDoubanItem m) = []"
    by (auto simp: convertTMDBMovieToDoubanItem_def)
  have p2: "poster_path m = Some p \<and> p \<noteq> [] \<longrightarrow>
      poster (convertTMDBMovieToDoubanItem m) = ''https://image.tmdb.org/t/p/w500'' @ p"
    by (simp add: convertTMDBMovieToDoubanItem_def)
  have i1: "\<bar>tmdb_id m\<bar> < 2 ^ 53 \<longrightarrow>
      parse_decimal (item_id (convertTMDBMovieToDoubanItem m)) = Some (tmdb_id m)"
    by (simp add: convertTMDBMovieToDoubanItem_def parse_decimal_int_toString)
  have s: "\<forall>conv \<in> set [convertTMDBSeriesToDoubanItem, convertTMDBMovieToDoubanItem_local,
                   convertTMDBSeriesToDoubanItem_local].
      rate (conv m) = rate (convertTMDBMovieToDoubanItem m) \<and>
      poster (conv m) = poster (convertTMDBMovieToDoubanItem m) \<and>
      item_id (conv m) = item_id (convertTMDBMovieToDoubanItem m)"
    by (simp add: convertTMDBMovieToDoubanItem_def convertTMDBSeriesToDoubanItem_def
        convertTMDBMovieToDoubanItem_local_def convertTMDBSeriesToDoubanItem_local_def
        getTMDBImageUrl_def)
  from y1 y2 y3 y4 r1 r2 p1 p2 i1 s show ?thesis by blast
qed

text \<open>C8 at the documented example, with the id 550, and at an item with absent and
  empty fields and the id -42.\<close>

theorem C8_normalization_witness:
  "release_date example_item = Some ''2021-07-04'' \<and>
   first_air_date example_item = Some ''2021-07-04'' \<and>
   vote_average example_item = Some (Num 7) \<and>
   poster_path example_item = Some ''/a.jpg'' \<and>
   tmdb_id example_item = 550 \<and> \<bar>tmdb_id example_item\<bar> < 2 ^ 53 \<and>
   convertTMDBMovieToDoubanItem example_item =
     \<lparr> item_id = ''550'', item_title = ''Fight Club'',
       poster = ''https://image.tmdb.org/t/p/w500/a.jpg'', rate = ''7.0'', year = ''2021'' \<rparr> \<and>
   year (convertTMDBSeriesToDoubanItem_local example_item) = ''2021'' \<and>
   parse_decimal (item_id (convertTMDBSeriesToDoubanItem_local example_item)) = Some 550 \<and>
   release_date blank_item = None \<and> first_air_date blank_item = Some [] \<and>
   vote_average blank_item = Some (Num 0) \<and> poster_path blank_item = None \<and>
   \<bar>tmdb_id blank_item\<bar> < 2 ^ 53 \<and>
   year (convertTMDBMovieToDoubanItem blank_item) = [] \<and>
   year (convertTMDBSeriesToDoubanItem_local blank_item) = [] \<and>
   rate (convertTMDBSeriesToDoubanItem blank_item) = [] \<and>
   poster (convertTMDBMovieToDoubanItem_local blank_item) = [] \<and>
   parse_decimal (item_id (convertTMDBSeriesToDoubanItem blank_item)) = Some (- 42)"
proof -
  have e: "release_date example_item = Some ''2021-07-04''"
    "first_air_date example_item = Some ''2021-07-04''"
    "vote_average example_item = Some (Num 7)"
    "poster_path example_item = Some ''/a.jpg''"
    "tmdb_id example_item = 550"
    "item_title (convertTMDBMovieToDoubanItem example_item) = ''Fight Club''"
    by (simp_all add: example_item_def convertTMDBMovieToDoubanItem_def str_or_def)
  have b: "release_date blank_item = None" "first_air_date blank_item = Some []"
    "vote_average blank_item = Some (Num 0)" "poster_path blank_item = None"
    "tmdb_id blank_item = - 42"
    by (simp_all add: blank_item_def)
  have id550: "item_id (convertTMDBMovieToDoubanItem example_item) = ''550''"
    by (simp add: example_item_def convertTMDBMovieToDoubanItem_def int_toString_def
        dec.simps digit_char_def)
  have eq: "r = \<lparr> item_id = item_id r, item_title = item_title r, poster = poster r,
              rate = rate r, year = year r \<rparr>" for r :: DoubanItem
    by simp
  from C8_normalization [of example_item "''/a.jpg''"] e id550
  have ex: "convertTMDBMovieToDoubanItem example_item =
     \<lparr> item_id = ''550'', item_title = ''Fight Club'',
       poster = ''https://image.tmdb.org/t/p/w500/a.jpg'', rate = ''7.0'', year = ''2021'' \<rparr>"
    "year (convertTMDBSeriesToDoubanItem_local example_item) = ''2021''"
    by (subst eq, simp, simp)
  from C8_normalization [of example_item "''/a.jpg''"] e
  have ex_id:
    "parse_decimal (item_id (convertTMDBSeriesToDoubanItem_local example_item)) = Some 550"
    by simp
  have bounds: "\<bar>tmdb_id example_item\<bar> < 2 ^ 53" "\<bar>tmdb_id blank_item\<bar> < 2 ^ 53"
    by (simp_all add: example_item_def blank_item_def)
  from C8_normalization [of blank_item "[]"] b
  have bl: "year (convertTMDBMovieToDoubanItem blank_item) = []"
    "year (convertTMDBSeriesToDoubanItem_local blank_item) = []"
    "rate (convertTMDBSeriesToDoubanItem blank_item) = []"
    "poster (convertTMDBMovieToDoubanItem_local blank_item) = []"
    "parse_decimal (item_id (convertTMDBSeriesToDoubanItem blank_item)) = Some (- 42)"
    by simp_all
  from e b ex ex_id bounds bl show ?thesis by simp
qed

subsection \<open>C7: unknown labels fall back to free-text search\<close>

text \<open>
  C7. For a kind \<open>movie\<close> or \<open>tv\<close> and a label with no case of its own for that kind,
  \<open>getSearchStrategy\<close> returns the endpoint \<open>/search/<kind>\<close> and parameters whose
  \<open>query\<close> is exactly the label (after the two baseline parameters).
\<close>

theorem C7_unknown_label_search:
  assumes "(type = ''movie'' \<and> tag \<notin> set known_movie_tags) \<or>
           (type = ''tv'' \<and> tag \<notin> set known_tv_tags)"
  shows "endpoint (getSearchStrategy tag type) = ''/search/'' @ type \<and>
         map_of (params (getSearchStrategy tag type)) ''query'' = Some (JStr tag) \<and>
         params (getSearchStrategy tag type) = baseParams @ [(''query'', JStr tag)]"
  using assms
  by (auto simp: strategy_search_movie strategy_search_tv baseParams_def)

text \<open>C7 at the label \<open>Inception\<close> for movies, and at \<open>tag_latest\<close>, which has a case
  for movies only, for series.\<close>

theorem C7_unknown_label_search_witness:
  "''Inception'' \<notin> set known_movie_tags \<and>
   getSearchStrategy ''Inception'' ''movie'' =
     \<lparr> endpoint = ''/search/movie'',
       params = [(''include_adult'', JBool False), (''include_video'', JBool False),
                 (''query'', JStr ''Inception'')] \<rparr> \<and>
   tag_latest \<notin> set known_tv_tags \<and>
   endpoint (getSearchStrategy tag_latest ''tv'') = ''/search/tv'' \<and>
   map_of (params (getSearchStrategy tag_latest ''tv'')) ''query'' = Some (JStr tag_latest)"
proof -
  have m: "''Inception'' \<notin> set known_movie_tags"
    by (simp add: known_movie_tags_def tag_popular_def tag_latest_def tag_upcoming_def
        tag_top_rated_def tag_douban_top_def tag_chinese_def tag_western_def tag_korean_def
        tag_japanese_def tag_anime_def tag_documentary_def tag_hidden_gems_def)
  have t: "tag_latest \<notin> set known_tv_tags"
    by (simp add: known_tv_tags_def tag_popular_def tag_latest_def tag_chinese_def
        tag_western_def tag_korean_def tag_japanese_def tag_anime_def tag_documentary_def
        tag_variety_def)
  have eq: "s = \<lparr> endpoint = endpoint s, params = params s \<rparr>" for s :: SearchStrategy
    by simp
  from C7_unknown_label_search [of "''movie''" "''Inception''"] m
  have 1: "getSearchStrategy ''Inception'' ''movie'' =
     \<lparr> endpoint = ''/search/movie'',
       params = [(''include_adult'', JBool False), (''include_video'', JBool False),
                 (''query'', JStr ''Inception'')] \<rparr>"
    by (subst eq) (simp add: baseParams_def)
  from C7_unknown_label_search [of "''tv''" tag_latest] t
  have 2: "endpoint (getSearchStrategy tag_latest ''tv'') = ''/search/tv''"
    "map_of (params (getSearchStrategy tag_latest ''tv'')) ''query'' = Some (JStr tag_latest)"
    by (simp_all add: baseParams_def)
  from m t 1 2 show ?thesis by simp
qed

subsection \<open>C6: the page number\<close>








subsection \<open>C2: baseline parameters\<close>

text \<open>
  C2, as amended. Every strategy that \<open>getSearchStrategy\<close> returns, for either kind,
  has \<open>include_adult = false\<close> and \<open>include_video = false\<close> among its parameters. The
  page number is not part of the strategy: the handler adds it, and every call made by
  the two handlers of route.ts carries \<open>include_adult = false\<close>, \<open>include_video = false\<close>
  and a \<open>page\<close> number.
\<close>

theorem C2_baseline_parameters:
  "map_of (params (getSearchStrategy tag type)) ''include_adult'' = Some (JBool False) \<and>
   map_of (params (getSearchStrategy tag type)) ''include_video'' = Some (JBool False) \<and>
   (c \<in> set (snd (GET_search e sp)) \<union> set (snd (GET_categories e sp)) \<longrightarrow>
      map_of (call_query c) ''include_adult'' = Some (JBool False) \<and>
      map_of (call_query c) ''include_video'' = Some (JBool False) \<and>
      (\<exists>p. map_of (call_query c) ''page'' = Some (JNum p)))"
proof -
  have "map_of (call_query c) ''include_adult'' = Some (JBool False) \<and>
      map_of (call_query c) ''include_video'' = Some (JBool False) \<and>
      (\<exists>p. map_of (call_query c) ''page'' = Some (JNum p))"
    if "c \<in> set (snd (GET_search e sp))"
    using that by (simp add: search_call_baseline search_call_page)
  moreover have "map_of (call_query c) ''include_adult'' = Some (JBool False) \<and>
      map_of (call_query c) ''include_video'' = Some (JBool False) \<and>
      (\<exists>p. map_of (call_query c) ''page'' = Some (JNum p))"
    if "c \<in> set (snd (GET_categories e sp))"
    using that by (simp add: categories_call_lookup)
  ultimately show ?thesis
    using strategy_include_adult [of tag type] strategy_include_video [of tag type] by blast
qed

text \<open>C2 at the request \<open>tag=Inception&type=movie&pageSize=20&pageStart=25\<close>.\<close>

theorem C2_baseline_parameters_witness:
  "(\<exists>c. c \<in> set (snd (GET_search env_ok req_page2)) \<union> set (snd (GET_categories env_ok req_page2)) \<and>
        map_of (call_query c) ''include_adult'' = Some (JBool False) \<and>
        map_of (call_query c) ''include_video'' = Some (JBool False) \<and>
        (\<exists>p. map_of (call_query c) ''page'' = Some (JNum p)))"
proof -
  let ?c = "\<lparr> call_endpoint = ''/search/movie'',
     call_query = [(''api_key'', JStr ''k''), (''language'', JStr ''zh-CN''),
        (''region'', JStr ''CN''), (''include_adult'', JBool False),
        (''include_video'', JBool False), (''query'', JStr ''Inception''),
        (''page'', JNum (Num 2))] \<rparr>"
  have c: "snd (GET_search env_ok req_page2) = [?c]" by code_simp
  then have "?c \<in> set (snd (GET_search env_ok req_page2)) \<union> set (snd (GET_categories env_ok req_page2))"
    by simp
  with C2_baseline_parameters [of "''Inception''" "''movie''" ?c env_ok req_page2]
  show ?thesis by blast
qed

text \<open>
  C2 as stated fails: the strategy for the kind \<open>tv\<close> (here for the label \<open>tag_popular\<close>)
  has \<open>include_video = false\<close> as well, and the strategy has no \<open>page\<close> parameter.
\<close>

theorem C2_counterexample:
  "getSearchStrategy tag_popular ''tv'' =
     \<lparr> endpoint = ''/tv/popular'',
       params = [(''include_adult'', JBool False), (''include_video'', JBool False)] \<rparr> \<and>
   map_of (params (getSearchStrategy tag_popular ''tv'')) ''include_video'' = Some (JBool False) \<and>
   map_of (params (getSearchStrategy tag_popular ''tv'')) ''page'' = None"
  by (simp add: getSearchStrategy_def baseParams_def)

subsection \<open>C3: failures of the outbound call\<close>

lemma fetch_rejects:
  "upstream e t = Rejects err \<Longrightarrow> fst (fetch_and_convert e t recover conv) = recover err"
  by (simp add: fetch_and_convert_def)

lemma fetch_bad_status:
  "upstream e t = Responds st b \<Longrightarrow> \<not> response_ok st \<Longrightarrow>
   fst (fetch_and_convert e t recover conv) = recover (api_error st)"
  by (simp add: fetch_and_convert_def)

lemma fetch_bad_body:
  "upstream e t = Responds st (Inl err) \<Longrightarrow> response_ok st \<Longrightarrow>
   fst (fetch_and_convert e t recover conv) = recover err"
  by (simp add: fetch_and_convert_def)

lemma api_error_messages:
  "err_message (api_error 401) = ''TMDB API error: 401''"
  "err_message (api_error 429) = ''TMDB API error: 429''"
  "err_message (api_error 500) = ''TMDB API error: 500''"
  "err_name (api_error st) = ''Error''"
  by (simp_all add: api_error_def dec.simps digit_char_def)

lemma error_response_statuses:
  "error_response fb (api_error 401) = json_error msg_key_invalid 500"
  "error_response fb (api_error 429) = json_error msg_rate_limited 429"
  "error_response fb (api_error 500) = json_error msg_server_error 502"
  by (simp_all add: error_response_def api_error_messages)

lemma not_ok_statuses: "\<not> response_ok 401" "\<not> response_ok 429" "\<not> response_ok 500"
  by (simp_all add: response_ok_def)

lemma route_failure_mapping:
  assumes h: "r = fetch_and_convert e c (error_response fb) conv"
  shows "(upstream e c = Rejects err \<and> err_name err = ''AbortError'' \<longrightarrow>
            fst (r) = json_error msg_timeout 408) \<and>
         (upstream e c = Responds 401 b \<longrightarrow> fst (r) = json_error msg_key_invalid 500) \<and>
         (upstream e c = Responds 429 b \<longrightarrow> fst (r) = json_error msg_rate_limited 429) \<and>
         (upstream e c = Responds 500 b \<longrightarrow> fst (r) = json_error msg_server_error 502) \<and>
         ((upstream e c = Rejects err \<or>
             (\<exists>st. response_ok st \<and> upstream e c = Responds st (Inl err))) \<and>
          err_name err \<noteq> ''AbortError'' \<and> \<not> str_includes (err_message err) ''401'' \<and>
          \<not> str_includes (err_message err) ''429'' \<and> \<not> str_includes (err_message err) ''500'' \<longrightarrow>
            fst (r) = json_error fb 500)"
proof -
  have 1: "fst (r) = json_error msg_timeout 408"
    if "upstream e c = Rejects err" "err_name err = ''AbortError''"
    using that by (simp add: h fetch_rejects error_response_def)
  have 2: "fst (r) = json_error msg_key_invalid 500" if "upstream e c = Responds 401 b"
    using that by (simp add: h fetch_bad_status not_ok_statuses error_response_statuses)
  have 3: "fst (r) = json_error msg_rate_limited 429" if "upstream e c = Responds 429 b"
    using that by (simp add: h fetch_bad_status not_ok_statuses error_response_statuses)
  have 4: "fst (r) = json_error msg_server_error 502" if "upstream e c = Responds 500 b"
    using that by (simp add: h fetch_bad_status not_ok_statuses error_response_statuses)
  have 5: "fst (r) = json_error fb 500"
    if "upstream e c = Rejects err \<or> (\<exists>st. response_ok st \<and> upstream e c = Responds st (Inl err))"
      "err_name err \<noteq> ''AbortError''" "\<not> str_includes (err_message err) ''401''"
      "\<not> str_includes (err_message err) ''429''" "\<not> str_includes (err_message err) ''500''"
    using that by (auto simp: h fetch_rejects fetch_bad_body error_response_def)
  from 1 2 3 4 5 show ?thesis by blast
qed

lemma local_failure_mapping:
  assumes h: "r = fetch_and_convert e c (\<lambda>err. json_error fb 500) conv"
    and f: "upstream e c = Rejects err \<or>
            (\<exists>st b. upstream e c = Responds st b \<and> (\<not> response_ok st \<or> b = Inl err))"
  shows "fst (r) = json_error fb 500"
  using f by (auto simp: h fetch_and_convert_def)

text \<open>
  C3, as amended. In the two handlers of route.ts, for a request whose call \<open>c\<close> fails:
  an error named \<open>AbortError\<close> (the timeout) gives 408 with the timeout message; the
  upstream statuses 401, 429 and 500 give 500 (invalid key), 429 and 502; and an error
  thrown by the fetch or by reading the answer, not named \<open>AbortError\<close> and whose message
  contains none of \<open>401\<close>, \<open>429\<close>, \<open>500\<close>, gives 500 with the handler's generic message. In
  the two self-contained route files every failure of the call gives 500 with the generic
  message.
\<close>

theorem C3_failure_mapping:
  "(((h = GET_search \<and> fb = msg_search_failed) \<or>
     (h = GET_categories \<and> fb = msg_category_failed)) \<and> c \<in> set (snd (h e sp)) \<longrightarrow>
      (upstream e c = Rejects err \<and> err_name err = ''AbortError'' \<longrightarrow>
         fst (h e sp) = json_error msg_timeout 408) \<and>
      (upstream e c = Responds 401 b \<longrightarrow> fst (h e sp) = json_error msg_key_invalid 500) \<and>
      (upstream e c = Responds 429 b \<longrightarrow> fst (h e sp) = json_error msg_rate_limited 429) \<and>
      (upstream e c = Responds 500 b \<longrightarrow> fst (h e sp) = json_error msg_server_error 502) \<and>
      ((upstream e c = Rejects err \<or>
          (\<exists>st. response_ok st \<and> upstream e c = Responds st (Inl err))) \<and>
       err_name err \<noteq> ''AbortError'' \<and> \<not> str_includes (err_message err) ''401'' \<and>
       \<not> str_includes (err_message err) ''429'' \<and> \<not> str_includes (err_message err) ''500'' \<longrightarrow>
         fst (h e sp) = json_error fb 500)) \<and>
   (((h = GET_search_local \<and> fb = msg_search_failed) \<or>
     (h = GET_categories_local \<and> fb = msg_category_failed)) \<and> c \<in> set (snd (h e sp)) \<and>
    (upstream e c = Rejects err \<or>
       (\<exists>st b. upstream e c = Responds st b \<and> (\<not> response_ok st \<or> b = Inl err))) \<longrightarrow>
      fst (h e sp) = json_error fb 500)"
proof -
  have route: "(upstream e c = Rejects err \<and> err_name err = ''AbortError'' \<longrightarrow>
         fst (h e sp) = json_error msg_timeout 408) \<and>
      (upstream e c = Responds 401 b \<longrightarrow> fst (h e sp) = json_error msg_key_invalid 500) \<and>
      (upstream e c = Responds 429 b \<longrightarrow> fst (h e sp) = json_error msg_rate_limited 429) \<and>
      (upstream e c = Responds 500 b \<longrightarrow> fst (h e sp) = json_error msg_server_error 502) \<and>
      ((upstream e c = Rejects err \<or>
          (\<exists>st. response_ok st \<and> upstream e c = Responds st (Inl err))) \<and>
       err_name err \<noteq> ''AbortError'' \<and> \<not> str_includes (err_message err) ''401'' \<and>
       \<not> str_includes (err_message err) ''429'' \<and> \<not> str_includes (err_message err) ''500'' \<longrightarrow>
         fst (h e sp) = json_error fb 500)"
    if a: "((h = GET_search \<and> fb = msg_search_failed) \<or>
       (h = GET_categories \<and> fb = msg_category_failed)) \<and> c \<in> set (snd (h e sp))"
  proof -
    from a have "\<exists>conv. h e sp = fetch_and_convert e c (error_response fb) conv"
      using GET_search_made_call [of c e sp] GET_categories_made_call [of c e sp] by blast
    then obtain conv where "h e sp = fetch_and_convert e c (error_response fb) conv" ..
    from route_failure_mapping [of "h e sp" e c fb conv err b, OF this] show ?thesis .
  qed
  have plain: "fst (h e sp) = json_error fb 500"
    if a: "((h = GET_search_local \<and> fb = msg_search_failed) \<or>
       (h = GET_categories_local \<and> fb = msg_category_failed)) \<and> c \<in> set (snd (h e sp)) \<and>
      (upstream e c = Rejects err \<or>
         (\<exists>st b. upstream e c = Responds st b \<and> (\<not> response_ok st \<or> b = Inl err)))"
  proof -
    from a have "\<exists>conv. h e sp = fetch_and_convert e c (\<lambda>err. json_error fb 500) conv"
      using GET_search_local_made_call [of c e sp] GET_categories_local_made_call [of c e sp]
      by blast
    then obtain conv where "h e sp = fetch_and_convert e c (\<lambda>err. json_error fb 500) conv" ..
    from local_failure_mapping [of "h e sp" e c fb conv err, OF this] a show ?thesis by blast
  qed
  from route plain show ?thesis by blast
qed

text \<open>C3 at one request, with upstreams that abort, answer 401, 429 and 500, and fail
  with a network error.\<close>

theorem C3_failure_mapping_witness:
  "fst (GET_search (env_with (Rejects abort_error)) req_page2) = json_error msg_timeout 408 \<and>
   fst (GET_search (env_with (Responds 401 (Inr []))) req_page2) = json_error msg_key_invalid 500 \<and>
   fst (GET_search (env_with (Responds 429 (Inr []))) req_page2) = json_error msg_rate_limited 429 \<and>
   fst (GET_search (env_with (Responds 500 (Inr []))) req_page2) = json_error msg_server_error 502 \<and>
   fst (GET_search (env_with (Rejects network_error)) req_page2) = json_error msg_search_failed 500 \<and>
   fst (GET_search_local (env_with (Responds 429 (Inr []))) req_page2) =
     json_error msg_search_failed 500"
proof -
  let ?c = "\<lparr> call_endpoint = ''/search/movie'',
     call_query = [(''api_key'', JStr ''k''), (''language'', JStr ''zh-CN''),
        (''region'', JStr ''CN''), (''include_adult'', JBool False),
        (''include_video'', JBool False), (''query'', JStr ''Inception''),
        (''page'', JNum (Num 2))] \<rparr>"
  let ?d = "\<lparr> call_endpoint = ''/search/movie'',
     call_query = [(''api_key'', JStr ''k''), (''language'', JStr ''zh-CN''),
        (''query'', JStr ''Inception''), (''page'', JNum (Num 2))] \<rparr>"
  have u: "upstream (env_with X) c = X" for X c by (simp add: env_with_def)
  have c1: "?c \<in> set (snd (GET_search (env_with (Rejects abort_error)) req_page2))"
    by code_simp
  have c2: "?c \<in> set (snd (GET_search (env_with (Responds 401 (Inr []))) req_page2))"
    by code_simp
  have c3: "?c \<in> set (snd (GET_search (env_with (Responds 429 (Inr []))) req_page2))"
    by code_simp
  have c4: "?c \<in> set (snd (GET_search (env_with (Responds 500 (Inr []))) req_page2))"
    by code_simp
  have c5: "?c \<in> set (snd (GET_search (env_with (Rejects network_error)) req_page2))"
    by code_simp
  have c6: "?d \<in> set (snd (GET_search_local (env_with (Responds 429 (Inr []))) req_page2))"
    by code_simp
  have n: "err_name network_error \<noteq> ''AbortError''"
    "\<not> str_includes (err_message network_error) ''401''"
    "\<not> str_includes (err_message network_error) ''429''"
    "\<not> str_includes (err_message network_error) ''500''"
    by (simp_all add: network_error_def)
  have r1: "fst (GET_search (env_with (Rejects abort_error)) req_page2) =
      json_error msg_timeout 408"
    using C3_failure_mapping [where h = GET_search and fb = msg_search_failed and c = ?c
        and e = "env_with (Rejects abort_error)" and sp = req_page2 and err = abort_error] c1 u
    by (simp add: abort_error_def)
  have r2: "fst (GET_search (env_with (Responds 401 (Inr []))) req_page2) =
      json_error msg_key_invalid 500"
    using C3_failure_mapping [where h = GET_search and fb = msg_search_failed and c = ?c
        and e = "env_with (Responds 401 (Inr []))" and sp = req_page2 and b = "Inr []"] c2 u
    by simp
  have r3: "fst (GET_search (env_with (Responds 429 (Inr []))) req_page2) =
      json_error msg_rate_limited 429"
    using C3_failure_mapping [where h = GET_search and fb = msg_search_failed and c = ?c
        and e = "env_with (Responds 429 (Inr []))" and sp = req_page2 and b = "Inr []"] c3 u
    by simp
  have r4: "fst (GET_search (env_with (Responds 500 (Inr []))) req_page2) =
      json_error msg_server_error 502"
    using C3_failure_mapping [where h = GET_search and fb = msg_search_failed and c = ?c
        and e = "env_with (Responds 500 (Inr []))" and sp = req_page2 and b = "Inr []"] c4 u
    by simp
  have r5: "fst (GET_search (env_with (Rejects network_error)) req_page2) =
      json_error msg_search_failed 500"
    using C3_failure_mapping [where h = GET_search and fb = msg_search_failed and c = ?c
        and e = "env_with (Rejects network_error)" and sp = req_page2 and err = network_error]
      c5 u n
    by simp
  have r6: "fst (GET_search_local (env_with (Responds 429 (Inr []))) req_page2) =
      json_error msg_search_failed 500"
    using C3_failure_mapping [where h = GET_search_local and fb = msg_search_failed and c = ?d
        and e = "env_with (Responds 429 (Inr []))" and sp = req_page2] c6 u
    by (simp add: response_ok_def)
  from r1 r2 r3 r4 r5 r6 show ?thesis by simp
qed

text \<open>
  C3 as stated fails. In the self-contained search handler an upstream 429 and an aborted call
  both give 500. In the search handler of route.ts an error thrown while the answer is
  read, whose message happens to contain \<open>429\<close>, gives 429 and not 500.
\<close>

theorem C3_counterexample:
  "status (fst (GET_search_local (env_with (Responds 429 (Inr []))) req_page2)) = 500 \<and>
   status (fst (GET_search_local (env_with (Rejects abort_error)) req_page2)) = 500 \<and>
   status (fst (GET_search (env_with (Responds 200 (Inl parse_error_429))) req_page2)) = 429"
  by code_simp

subsection \<open>C4: the variety label with the movie kind\<close>

lemma tag_variety_nonempty: "tag_variety \<noteq> []"
  by (simp add: tag_variety_def)

text \<open>
  C4, as amended. In the search handler of route.ts, for a request with \<open>type=movie\<close>
  and the variety label as \<open>tag\<close> whose page size and page offset pass validation, with
  the API key configured, the answer is status 200 with the envelope of code 200, the
  success message and an empty list, and no call is made.
\<close>

theorem C4_variety_movie_short_circuit:
  assumes "sp ''tag'' = Some tag_variety" and "sp ''type'' = Some ''movie''"
    and "\<not> js_lt (parseInt (or_default (sp ''pageSize'') ''20'')) (Num 1)"
    and "\<not> js_gt (parseInt (or_default (sp ''pageSize'') ''20'')) (Num 100)"
    and "\<not> js_lt (parseInt (or_default (sp ''pageStart'') ''0'')) (Num 0)"
    and "str_truthy (apiKey e)"
  shows "GET_search e sp =
           (json_result \<lparr> code = 200, message = msg_success, list = [] \<rparr>, [])"
  using assms unfolding GET_search_def Let_def
  by (simp add: tag_variety_nonempty)

text \<open>C4 at the request \<open>tag=<variety>&type=movie\<close> with the default page parameters.\<close>

theorem C4_variety_movie_short_circuit_witness:
  "req_variety_movie ''tag'' = Some tag_variety \<and> req_variety_movie ''type'' = Some ''movie'' \<and>
   \<not> js_lt (parseInt (or_default (req_variety_movie ''pageSize'') ''20'')) (Num 1) \<and>
   \<not> js_gt (parseInt (or_default (req_variety_movie ''pageSize'') ''20'')) (Num 100) \<and>
   \<not> js_lt (parseInt (or_default (req_variety_movie ''pageStart'') ''0'')) (Num 0) \<and>
   str_truthy (apiKey env_ok) \<and>
   GET_search env_ok req_variety_movie =
     (\<lparr> status = 200,
        body = Result \<lparr> code = 200, message = msg_success, list = [] \<rparr> \<rparr>, [])"
proof -
  have 1: "req_variety_movie ''tag'' = Some tag_variety"
    "req_variety_movie ''type'' = Some ''movie''"
    by (simp_all add: req_variety_movie_def)
  have 2: "\<not> js_lt (parseInt (or_default (req_variety_movie ''pageSize'') ''20'')) (Num 1)"
    "\<not> js_gt (parseInt (or_default (req_variety_movie ''pageSize'') ''20'')) (Num 100)"
    "\<not> js_lt (parseInt (or_default (req_variety_movie ''pageStart'') ''0'')) (Num 0)"
    by code_simp+
  have 3: "str_truthy (apiKey env_ok)" by (simp add: env_ok_def)
  from C4_variety_movie_short_circuit [OF 1 2 3] 1 2 3 show ?thesis
    by (simp add: json_result_def)
qed

text \<open>
  C4 as stated fails: with \<open>pageSize=0\<close> the same request is answered 400, and the
  category handler has no such guard: with \<open>kind=movie\<close> and the variety category
  \<open>show\<close> it calls \<open>/movie/popular\<close>.
\<close>

theorem C4_counterexample:
  "status (fst (GET_search env_ok req_variety_zero)) = 400 \<and>
   map call_endpoint (snd (GET_categories env_ok req_movie_show)) = [''/movie/popular'']"
  by code_simp

subsection \<open>C5: validation\<close>

text \<open>
  C5, as amended. Validation answers 400 and makes no call: in the tag/type handlers when
  \<open>tag\<close> or \<open>type\<close> is absent or empty; in the category/kind handlers when \<open>category\<close> or
  \<open>type\<close> is absent or empty (an absent \<open>kind\<close> is replaced by \<open>movie\<close> and is no error);
  in all four when the page size parses to a number below 1 or above 100, or the page
  offset parses to a negative number.
\<close>

theorem C5_validation:
  "((h = GET_search \<or> h = GET_search_local) \<and>
      (\<not> str_truthy (sp ''tag'') \<or> \<not> str_truthy (sp ''type'')) \<longrightarrow>
        h e sp = (json_error msg_missing_tag_type 400, [])) \<and>
   ((h = GET_categories \<or> h = GET_categories_local) \<and>
      (\<not> str_truthy (sp ''category'') \<or> \<not> str_truthy (sp ''type'')) \<longrightarrow>
        h e sp = (json_error msg_missing_kind_category_type 400, [])) \<and>
   ((((h = GET_search \<or> h = GET_search_local) \<and>
        parseInt (or_default (sp ''pageSize'') ''20'') = Num n) \<or>
     ((h = GET_categories \<or> h = GET_categories_local) \<and>
        parseInt (or_default (sp ''limit'') ''20'') = Num n)) \<and> (n < 1 \<or> 100 < n) \<longrightarrow>
        status (fst (h e sp)) = 400 \<and> snd (h e sp) = []) \<and>
   ((((h = GET_search \<or> h = GET_search_local) \<and>
        parseInt (or_default (sp ''pageStart'') ''0'') = Num m) \<or>
     ((h = GET_categories \<or> h = GET_categories_local) \<and>
        parseInt (or_default (sp ''start'') ''0'') = Num m)) \<and> m < 0 \<longrightarrow>
        status (fst (h e sp)) = 400 \<and> snd (h e sp) = [])"
proof -
  have a: "h e sp = (json_error msg_missing_tag_type 400, [])"
    if "h = GET_search \<or> h = GET_search_local"
       "\<not> str_truthy (sp ''tag'') \<or> \<not> str_truthy (sp ''type'')"
    using that by (auto simp: GET_search_def GET_search_local_def Let_def)
  have b: "h e sp = (json_error msg_missing_kind_category_type 400, [])"
    if "h = GET_categories \<or> h = GET_categories_local"
       "\<not> str_truthy (sp ''category'') \<or> \<not> str_truthy (sp ''type'')"
    using that by (auto simp: GET_categories_def GET_categories_local_def Let_def)
  have c1: "status (fst (h e sp)) = 400 \<and> snd (h e sp) = []"
    if "h = GET_search \<or> h = GET_search_local"
       "parseInt (or_default (sp ''pageSize'') ''20'') = Num n" "n < 1 \<or> 100 < n"
    using that
    by (auto simp: GET_search_def GET_search_local_def Let_def json_error_def js_gt_def)
  have c2: "status (fst (h e sp)) = 400 \<and> snd (h e sp) = []"
    if "h = GET_categories \<or> h = GET_categories_local"
       "parseInt (or_default (sp ''limit'') ''20'') = Num n" "n < 1 \<or> 100 < n"
    using that
    by (auto simp: GET_categories_def GET_categories_local_def Let_def json_error_def js_gt_def)
  have d1: "status (fst (h e sp)) = 400 \<and> snd (h e sp) = []"
    if "h = GET_search \<or> h = GET_search_local"
       "parseInt (or_default (sp ''pageStart'') ''0'') = Num m" "m < 0"
    using that
    by (auto simp: GET_search_def GET_search_local_def Let_def json_error_def)
  have d2: "status (fst (h e sp)) = 400 \<and> snd (h e sp) = []"
    if "h = GET_categories \<or> h = GET_categories_local"
       "parseInt (or_default (sp ''start'') ''0'') = Num m" "m < 0"
    using that
    by (auto simp: GET_categories_def GET_categories_local_def Let_def json_error_def)
  from a b c1 c2 d1 d2 show ?thesis by blast
qed

text \<open>C5 at requests with no parameter at all, with \<open>limit=101\<close>, with \<open>pageSize=0\<close> and
  with \<open>pageStart=-1\<close>.\<close>

theorem C5_validation_witness:
  "\<not> str_truthy (Map.empty ''tag'') \<and>
   GET_search env_ok Map.empty = (json_error msg_missing_tag_type 400, []) \<and>
   \<not> str_truthy (Map.empty ''category'') \<and>
   GET_categories_local env_ok Map.empty = (json_error msg_missing_kind_category_type 400, []) \<and>
   parseInt (or_default (req_size_101 ''limit'') ''20'') = Num 101 \<and>
   status (fst (GET_categories env_ok req_size_101)) = 400 \<and>
   snd (GET_categories env_ok req_size_101) = [] \<and>
   parseInt (or_default (req_variety_zero ''pageSize'') ''20'') = Num 0 \<and>
   status (fst (GET_search env_ok req_variety_zero)) = 400 \<and>
   snd (GET_search env_ok req_variety_zero) = [] \<and>
   parseInt (or_default (req_negative_start ''pageStart'') ''0'') = Num (- 1) \<and>
   status (fst (GET_search_local env_ok req_negative_start)) = 400 \<and>
   snd (GET_search_local env_ok req_negative_start) = []"
proof -
  have p1: "parseInt (or_default (req_size_101 ''limit'') ''20'') = Num 101" by code_simp
  have p2: "parseInt (or_default (req_variety_zero ''pageSize'') ''20'') = Num 0" by code_simp
  have p3: "parseInt (or_default (req_negative_start ''pageStart'') ''0'') = Num (- 1)"
    by code_simp
  have m: "\<not> str_truthy ((Map.empty :: searchParams) k)" for k by simp
  from C5_validation [where h = GET_search and sp = Map.empty and e = env_ok] m
  have r1: "GET_search env_ok Map.empty = (json_error msg_missing_tag_type 400, [])" by simp
  from C5_validation [where h = GET_categories_local and sp = Map.empty and e = env_ok] m
  have r2: "GET_categories_local env_ok Map.empty =
      (json_error msg_missing_kind_category_type 400, [])" by simp
  from C5_validation [where h = GET_categories and sp = req_size_101 and e = env_ok
      and n = 101] p1
  have r3: "status (fst (GET_categories env_ok req_size_101)) = 400 \<and>
      snd (GET_categories env_ok req_size_101) = []" by simp
  from C5_validation [where h = GET_search and sp = req_variety_zero and e = env_ok
      and n = 0] p2
  have r4: "status (fst (GET_search env_ok req_variety_zero)) = 400 \<and>
      snd (GET_search env_ok req_variety_zero) = []" by simp
  from C5_validation [where h = GET_search_local and sp = req_negative_start and e = env_ok
      and m = "- 1"] p3
  have r5: "status (fst (GET_search_local env_ok req_negative_start)) = 400 \<and>
      snd (GET_search_local env_ok req_negative_start) = []" by simp
  from m p1 p2 p3 r1 r2 r3 r4 r5 show ?thesis by simp
qed

text \<open>
  C5 as stated fails for the \<open>kind\<close> parameter: a request to the category handler with
  no \<open>kind\<close> is not answered 400; the call is made and the answer is 200.
\<close>

theorem C5_counterexample:
  "req_no_kind ''kind'' = None \<and>
   status (fst (GET_categories env_ok req_no_kind)) = 200 \<and>
   map call_endpoint (snd (GET_categories env_ok req_no_kind)) = [''/discover/movie''] \<and>
   status (fst (GET_categories_local env_ok req_no_kind)) = 200 \<and>
   map call_endpoint (snd (GET_categories_local env_ok req_no_kind)) = [''/movie/popular'']"
  by code_simp

subsection \<open>C9: a page size that is not a number\<close>

text \<open>
  C9. There is a request whose \<open>pageSize\<close> (for the category handlers, \<open>limit\<close>) is the
  non-numeric string \<open>abc\<close>: it parses to NaN, NaN is neither below 1 nor above 100, and
  the handler does not answer 400 but makes its call, with the page number NaN.
\<close>

theorem C9_nan_page_size:
  "(\<exists>sp. sp ''pageSize'' = Some ''abc'' \<and>
      parseInt (or_default (sp ''pageSize'') ''20'') = NaN \<and>
      \<not> js_lt (parseInt (or_default (sp ''pageSize'') ''20'')) (Num 1) \<and>
      \<not> js_gt (parseInt (or_default (sp ''pageSize'') ''20'')) (Num 100) \<and>
      status (fst (GET_search env_ok sp)) = 200 \<and>
      map (\<lambda>c. map_of (call_query c) ''page'') (snd (GET_search env_ok sp)) = [Some (JNum NaN)] \<and>
      status (fst (GET_search_local env_ok sp)) = 200 \<and>
      map (\<lambda>c. map_of (call_query c) ''page'') (snd (GET_search_local env_ok sp)) =
        [Some (JNum NaN)]) \<and>
   (\<exists>sp. sp ''limit'' = Some ''abc'' \<and>
      parseInt (or_default (sp ''limit'') ''20'') = NaN \<and>
      \<not> js_lt (parseInt (or_default (sp ''limit'') ''20'')) (Num 1) \<and>
      \<not> js_gt (parseInt (or_default (sp ''limit'') ''20'')) (Num 100) \<and>
      status (fst (GET_categories env_ok sp)) = 200 \<and>
      map (\<lambda>c. map_of (call_query c) ''page'') (snd (GET_categories env_ok sp)) =
        [Some (JNum NaN)] \<and>
      status (fst (GET_categories_local env_ok sp)) = 200 \<and>
      map (\<lambda>c. map_of (call_query c) ''page'') (snd (GET_categories_local env_ok sp)) =
        [Some (JNum NaN)])"
proof (rule conjI)
  have "req_nan_size ''pageSize'' = Some ''abc'' \<and>
      parseInt (or_default (req_nan_size ''pageSize'') ''20'') = NaN \<and>
      \<not> js_lt (parseInt (or_default (req_nan_size ''pageSize'') ''20'')) (Num 1) \<and>
      \<not> js_gt (parseInt (or_default (req_nan_size ''pageSize'') ''20'')) (Num 100) \<and>
      status (fst (GET_search env_ok req_nan_size)) = 200 \<and>
      map (\<lambda>c. map_of (call_query c) ''page'') (snd (GET_search env_ok req_nan_size)) =
        [Some (JNum NaN)] \<and>
      status (fst (GET_search_local env_ok req_nan_size)) = 200 \<and>
      map (\<lambda>c. map_of (call_query c) ''page'') (snd (GET_search_local env_ok req_nan_size)) =
        [Some (JNum NaN)]"
    by code_simp
  then show "\<exists>sp. sp ''pageSize'' = Some ''abc'' \<and>
      parseInt (or_default (sp ''pageSize'') ''20'') = NaN \<and>
      \<not> js_lt (parseInt (or_default (sp ''pageSize'') ''20'')) (Num 1) \<and>
      \<not> js_gt (parseInt (or_default (sp ''pageSize'') ''20'')) (Num 100) \<and>
      status (fst (GET_search env_ok sp)) = 200 \<and>
      map (\<lambda>c. map_of (call_query c) ''page'') (snd (GET_search env_ok sp)) = [Some (JNum NaN)] \<and>
      status (fst (GET_search_local env_ok sp)) = 200 \<and>
      map (\<lambda>c. map_of (call_query c) ''page'') (snd (GET_search_local env_ok sp)) =
        [Some (JNum NaN)]"
    by (rule exI [of _ req_nan_size])
next
  have "req_nan_limit ''limit'' = Some ''abc'' \<and>
      parseInt (or_default (req_nan_limit ''limit'') ''20'') = NaN \<and>
      \<not> js_lt (parseInt (or_default (req_nan_limit ''limit'') ''20'')) (Num 1) \<and>
      \<not> js_gt (parseInt (or_default (req_nan_limit ''limit'') ''20'')) (Num 100) \<and>
      status (fst (GET_categories env_ok req_nan_limit)) = 200 \<and>
      map (\<lambda>c. map_of (call_query c) ''page'') (snd (GET_categories env_ok req_nan_limit)) =
        [Some (JNum NaN)] \<and>
      status (fst (GET_categories_local env_ok req_nan_limit)) = 200 \<and>
      map (\<lambda>c. map_of (call_query c) ''page'') (snd (GET_categories_local env_ok req_nan_limit)) =
        [Some (JNum NaN)]"
    by code_simp
  then show "\<exists>sp. sp ''limit'' = Some ''abc'' \<and>
      parseInt (or_default (sp ''limit'') ''20'') = NaN \<and>
      \<not> js_lt (parseInt (or_default (sp ''limit'') ''20'')) (Num 1) \<and>
      \<not> js_gt (parseInt (or_default (sp ''limit'') ''20'')) (Num 100) \<and>
      status (fst (GET_categories env_ok sp)) = 200 \<and>
      map (\<lambda>c. map_of (call_query c) ''page'') (snd (GET_categories env_ok sp)) =
        [Some (JNum NaN)] \<and>
      status (fst (GET_categories_local env_ok sp)) = 200 \<and>
      map (\<lambda>c. map_of (call_query c) ''page'') (snd (GET_categories_local env_ok sp)) =
        [Some (JNum NaN)]"
    by (rule exI [of _ req_nan_limit])
qed

subsection \<open>C9: the requests found are not rejected\<close>

lemma ex_weaken: "\<exists>x. P x \<Longrightarrow> (\<And>x. P x \<Longrightarrow> Q x) \<Longrightarrow> \<exists>x. Q x"
  by blast

text \<open>The requests of C9 are not answered 400 although their page size is NaN.\<close>

theorem C9_nan_page_size_witness:
  "(\<exists>sp. parseInt (or_default (sp ''pageSize'') ''20'') = NaN \<and>
         status (fst (GET_search env_ok sp)) \<noteq> 400 \<and>
         status (fst (GET_search_local env_ok sp)) \<noteq> 400) \<and>
   (\<exists>sp. parseInt (or_default (sp ''limit'') ''20'') = NaN \<and>
         status (fst (GET_categories env_ok sp)) \<noteq> 400 \<and>
         status (fst (GET_categories_local env_ok sp)) \<noteq> 400)"
proof (rule conjI)
  show "\<exists>sp. parseInt (or_default (sp ''pageSize'') ''20'') = NaN \<and>
         status (fst (GET_search env_ok sp)) \<noteq> 400 \<and>
         status (fst (GET_search_local env_ok sp)) \<noteq> 400"
    by (rule ex_weaken [OF C9_nan_page_size [THEN conjunct1]]) (elim conjE, intro conjI, assumption, simp_all (no_asm_simp))
next
  show "\<exists>sp. parseInt (or_default (sp ''limit'') ''20'') = NaN \<and>
         status (fst (GET_categories env_ok sp)) \<noteq> 400 \<and>
         status (fst (GET_categories_local env_ok sp)) \<noteq> 400"
    by (rule ex_weaken [OF C9_nan_page_size [THEN conjunct2]]) (elim conjE, intro conjI, assumption, simp_all (no_asm_simp))
qed

subsection \<open>Requests that pass validation\<close>

lemma fetch_status_route:
  "status (fst (fetch_and_convert e t (error_response fb) conv)) \<noteq> 400"
  by (simp add: fetch_and_convert_def error_response_def json_error_def json_result_def
      split: fetch_outcome.split sum.split)

lemma fetch_status_local:
  "status (fst (fetch_and_convert e t (\<lambda>err. json_error fb 500) conv)) \<noteq> 400"
  by (simp add: fetch_and_convert_def json_error_def json_result_def
      split: fetch_outcome.split sum.split)

lemma status_json_error: "status (json_error msg st) = st"
  by (simp add: json_error_def)

lemma json_error_eq: "json_error m s = json_error m' s' \<longleftrightarrow> m = m' \<and> s = s'"
  by (auto simp: json_error_def)

lemma GET_categories_passes:
  assumes "str_truthy (sp ''category'')" "str_truthy (sp ''type'')"
    "or_default (sp ''kind'') ''movie'' \<in> set [''tv'', ''movie'']"
    "\<not> js_lt (parseInt (or_default (sp ''limit'') ''20'')) (Num 1)"
    "\<not> js_gt (parseInt (or_default (sp ''limit'') ''20'')) (Num 100)"
    "\<not> js_lt (parseInt (or_default (sp ''start'') ''0'')) (Num 0)"
  shows "status (fst (GET_categories e sp)) \<noteq> 400"
  using assms unfolding GET_categories_def Let_def
  by (auto simp: fetch_status_route status_json_error)

lemma GET_categories_local_passes:
  assumes "str_truthy (sp ''category'')" "str_truthy (sp ''type'')"
    "or_default (sp ''kind'') ''movie'' \<in> set [''tv'', ''movie'']"
    "\<not> js_lt (parseInt (or_default (sp ''limit'') ''20'')) (Num 1)"
    "\<not> js_gt (parseInt (or_default (sp ''limit'') ''20'')) (Num 100)"
    "\<not> js_lt (parseInt (or_default (sp ''start'') ''0'')) (Num 0)"
  shows "status (fst (GET_categories_local e sp)) \<noteq> 400"
  using assms unfolding GET_categories_local_def Let_def
  by (auto simp: fetch_status_local status_json_error)

subsection \<open>C10: the default of the kind parameter\<close>

lemma missing_message_distinct:
  "msg_pageLimit_range \<noteq> msg_missing_kind_category_type"
  "msg_pageSize_range \<noteq> msg_missing_kind_category_type"
  "msg_pageStart_negative \<noteq> msg_missing_kind_category_type"
  "msg_kind_invalid \<noteq> msg_missing_kind_category_type"
  by (simp_all add: msg_pageLimit_range_def msg_pageSize_range_def msg_pageStart_negative_def
      msg_kind_invalid_def msg_missing_kind_category_type_def)

lemma GET_categories_kind_default:
  "sp ''kind'' = None \<Longrightarrow> GET_categories e sp = GET_categories e (sp(''kind'' \<mapsto> ''movie''))"
  by (simp add: GET_categories_def)

lemma GET_categories_local_kind_default:
  "sp ''kind'' = None \<Longrightarrow>
   GET_categories_local e sp = GET_categories_local e (sp(''kind'' \<mapsto> ''movie''))"
  by (simp add: GET_categories_local_def)

lemma GET_categories_missing:
  "\<not> str_truthy (sp ''category'') \<or> \<not> str_truthy (sp ''type'') \<Longrightarrow>
   fst (GET_categories e sp) = json_error msg_missing_kind_category_type 400"
  by (auto simp: GET_categories_def Let_def)

lemma GET_categories_local_missing:
  "\<not> str_truthy (sp ''category'') \<or> \<not> str_truthy (sp ''type'') \<Longrightarrow>
   fst (GET_categories_local e sp) = json_error msg_missing_kind_category_type 400"
  by (auto simp: GET_categories_local_def Let_def)

lemma fetch_not_missing:
  "fst (fetch_and_convert e t (error_response fb) conv) \<noteq>
     json_error msg_missing_kind_category_type 400"
  "fst (fetch_and_convert e t (\<lambda>err. json_error fb 500) conv) \<noteq>
     json_error msg_missing_kind_category_type 400"
  using fetch_status_route [of e t fb conv] fetch_status_local [of e t fb conv]
  by (auto simp: status_json_error)

lemma GET_categories_present:
  assumes "str_truthy (sp ''category'')" "str_truthy (sp ''type'')"
    "or_default (sp ''kind'') ''movie'' = ''movie''"
  shows "fst (GET_categories e sp) \<noteq> json_error msg_missing_kind_category_type 400"
  using assms unfolding GET_categories_def Let_def
  by (simp add: json_error_eq missing_message_distinct fetch_not_missing)

lemma GET_categories_local_present:
  assumes "str_truthy (sp ''category'')" "str_truthy (sp ''type'')"
    "or_default (sp ''kind'') ''movie'' = ''movie''"
  shows "fst (GET_categories_local e sp) \<noteq> json_error msg_missing_kind_category_type 400"
  using assms unfolding GET_categories_local_def Let_def
  by (simp add: json_error_eq missing_message_distinct fetch_not_missing)

text \<open>
  C10. In the category/kind handlers a request with no \<open>kind\<close> is handled exactly as the
  same request with \<open>kind=movie\<close>. The kind that validation sees is never empty, so the
  missing-parameter answer comes from \<open>category\<close> or \<open>type\<close> only; and when these two are
  present and the page parameters pass, the answer to a request with no \<open>kind\<close> is not 400.
\<close>

theorem C10_kind_defaults_to_movie:
  assumes "h = GET_categories \<or> h = GET_categories_local" and "sp ''kind'' = None"
  shows "h e sp = h e (sp(''kind'' \<mapsto> ''movie'')) \<and>
         or_default (sp ''kind'') ''movie'' = ''movie'' \<and>
         (\<forall>k. or_default k ''movie'' \<noteq> []) \<and>
         (fst (h e sp) = json_error msg_missing_kind_category_type 400 \<longleftrightarrow>
            \<not> str_truthy (sp ''category'') \<or> \<not> str_truthy (sp ''type'')) \<and>
         (str_truthy (sp ''category'') \<and> str_truthy (sp ''type'') \<and>
          \<not> js_lt (parseInt (or_default (sp ''limit'') ''20'')) (Num 1) \<and>
          \<not> js_gt (parseInt (or_default (sp ''limit'') ''20'')) (Num 100) \<and>
          \<not> js_lt (parseInt (or_default (sp ''start'') ''0'')) (Num 0) \<longrightarrow>
            status (fst (h e sp)) \<noteq> 400)"
proof -
  have same: "h e sp = h e (sp(''kind'' \<mapsto> ''movie''))"
    using assms GET_categories_kind_default [of sp e]
      GET_categories_local_kind_default [of sp e] by blast
  have k: "or_default (sp ''kind'') ''movie'' = ''movie''" using assms(2) by simp
  have ne: "or_default k ''movie'' \<noteq> []" for k by (cases k) auto
  have miss: "fst (h e sp) = json_error msg_missing_kind_category_type 400"
    if "\<not> str_truthy (sp ''category'') \<or> \<not> str_truthy (sp ''type'')"
    using that assms(1) GET_categories_missing [of sp e] GET_categories_local_missing [of sp e]
    by auto
  have present: "fst (h e sp) \<noteq> json_error msg_missing_kind_category_type 400"
    if "str_truthy (sp ''category'')" "str_truthy (sp ''type'')"
    using that assms(1) k GET_categories_present [of sp e] GET_categories_local_present [of sp e]
    by auto
  have pass: "status (fst (h e sp)) \<noteq> 400"
    if "str_truthy (sp ''category'')" "str_truthy (sp ''type'')"
      "\<not> js_lt (parseInt (or_default (sp ''limit'') ''20'')) (Num 1)"
      "\<not> js_gt (parseInt (or_default (sp ''limit'') ''20'')) (Num 100)"
      "\<not> js_lt (parseInt (or_default (sp ''start'') ''0'')) (Num 0)"
    using that assms(1) k GET_categories_passes [of sp e] GET_categories_local_passes [of sp e]
    by auto
  from same k ne miss present pass show ?thesis by blast
qed

text \<open>C10 at the request \<open>category=<popular>&type=<chinese>\<close>, which has no \<open>kind\<close>.\<close>

theorem C10_kind_defaults_to_movie_witness:
  "req_no_kind ''kind'' = None \<and>
   GET_categories env_ok req_no_kind = GET_categories env_ok (req_no_kind(''kind'' \<mapsto> ''movie'')) \<and>
   str_truthy (req_no_kind ''category'') \<and> str_truthy (req_no_kind ''type'') \<and>
   \<not> js_lt (parseInt (or_default (req_no_kind ''limit'') ''20'')) (Num 1) \<and>
   \<not> js_gt (parseInt (or_default (req_no_kind ''limit'') ''20'')) (Num 100) \<and>
   \<not> js_lt (parseInt (or_default (req_no_kind ''start'') ''0'')) (Num 0) \<and>
   status (fst (GET_categories env_ok req_no_kind)) \<noteq> 400 \<and>
   fst (GET_categories env_ok req_no_kind) \<noteq> json_error msg_missing_kind_category_type 400"
proof -
  have n: "req_no_kind ''kind'' = None" by (simp add: req_no_kind_def)
  have v: "str_truthy (req_no_kind ''category'') \<and> str_truthy (req_no_kind ''type'') \<and>
     \<not> js_lt (parseInt (or_default (req_no_kind ''limit'') ''20'')) (Num 1) \<and>
     \<not> js_gt (parseInt (or_default (req_no_kind ''limit'') ''20'')) (Num 100) \<and>
     \<not> js_lt (parseInt (or_default (req_no_kind ''start'') ''0'')) (Num 0)"
    by code_simp
  note t = C10_kind_defaults_to_movie [of GET_categories req_no_kind env_ok, OF disjI1 n, OF refl]
  from t have same: "GET_categories env_ok req_no_kind =
      GET_categories env_ok (req_no_kind(''kind'' \<mapsto> ''movie''))"
    by (rule conjunct1)
  from t [THEN conjunct2] v
  have rest: "status (fst (GET_categories env_ok req_no_kind)) \<noteq> 400 \<and>
      fst (GET_categories env_ok req_no_kind) \<noteq> json_error msg_missing_kind_category_type 400"
    by simp
  from n v same rest show ?thesis by (intro conjI) (simp_all only: simp_thms)
qed

end
